theory Spec2Isabelle
  imports Main "HOL-Library.Multiset"
begin

section \<open>Data model (app/models)\<close>

text \<open>
  Timestamps are integers (seconds on some clock). A monetary amount (the column
  \<open>Numeric(10, 2)\<close>) is an integer counting hundredths; the database adds such
  amounts exactly. Column widths (\<open>String(120)\<close> and the like) are outside the model,
  but for the width of a tag where the tag filter casts to it.
\<close>

type_synonym datetime = int

datatype ContactStatus =
  ContactStatus_lead | ContactStatus_prospect | ContactStatus_client
  | ContactStatus_lost | ContactStatus_archived

datatype InteractionType =
  InteractionType_call | InteractionType_email | InteractionType_meeting
  | InteractionType_note | InteractionType_other

datatype ProposalStatus =
  ProposalStatus_draft | ProposalStatus_submitted | ProposalStatus_won
  | ProposalStatus_lost | ProposalStatus_ignored | ProposalStatus_expired

datatype ActionStatus =
  ActionStatus_pending | ActionStatus_completed | ActionStatus_cancelled

datatype ActionPriority =
  ActionPriority_low | ActionPriority_medium | ActionPriority_high | ActionPriority_urgent

datatype ActionType =
  ActionType_call | ActionType_meeting | ActionType_follow_up
  | ActionType_email | ActionType_other

text \<open>A nullable column is an \<open>option\<close>; a \<open>nullable=False\<close> column is not.\<close>

record Contact =
  c_id :: int
  c_first_name :: string
  c_last_name :: string
  c_email :: "string option"
  c_phone :: "string option"
  c_company :: "string option"
  c_job_title :: "string option"
  c_status :: ContactStatus
  c_source :: "string option"
  c_owner_id :: "int option"
  c_tags :: "string list option"
  c_notes :: "string option"
  c_next_action :: "datetime option"
  c_created_at :: datetime
  c_updated_at :: datetime

record Interaction =
  i_id :: int
  i_contact_id :: int
  i_type :: InteractionType
  i_occurred_at :: datetime
  i_summary :: string
  i_outcome :: "string option"
  i_created_by :: "string option"
  i_created_at :: datetime
  i_updated_at :: datetime

record Proposal =
  p_id :: int
  p_contact_id :: int
  p_title :: string
  p_description :: "string option"
  p_value :: "int option"
  p_status :: ProposalStatus
  p_applied_at :: "datetime option"
  p_created_at :: datetime
  p_updated_at :: datetime
  p_expires_at :: "datetime option"

record Action =
  a_id :: int
  a_contact_id :: int
  a_proposal_id :: "int option"
  a_interaction_id :: "int option"
  a_title :: string
  a_description :: "string option"
  a_status :: ActionStatus
  a_completed_at :: "datetime option"
  a_created_at :: datetime
  a_updated_at :: datetime
  a_due_at :: "datetime option"
  a_action_type :: ActionType
  a_assigned_to :: "int option"
  a_priority :: ActionPriority

text \<open>
  The database behind a \<open>Session\<close>: the four tables in row order, and the serial
  sequence that numbers the contacts.
\<close>

record database =
  contacts :: "Contact list"
  interactions :: "Interaction list"
  proposals :: "Proposal list"
  actions :: "Action list"
  contacts_id_seq :: int

datatype error =
  HTTPException nat string
  | IntegrityError
  | ProgrammingError

section \<open>Schemas (app/schemas)\<close>

text \<open>
  A field of an update schema is \<open>Unset\<close> when the request did not name it and
  \<open>Given v\<close> when it did, \<open>Given None\<close> being an explicit null:
  \<open>model_dump(exclude_unset=True)\<close> keeps exactly the \<open>Given\<close> fields.
\<close>

datatype 'a field = Unset | Given "'a option"

record ContactCreate =
  cc_first_name :: string
  cc_last_name :: string
  cc_email :: "string option"
  cc_phone :: "string option"
  cc_company :: "string option"
  cc_job_title :: "string option"
  cc_status :: ContactStatus
  cc_source :: "string option"
  cc_owner_id :: "int option"
  cc_tags :: "string list"
  cc_notes :: "string option"
  cc_next_action :: "datetime option"

record ContactUpdate =
  cu_first_name :: "string field"
  cu_last_name :: "string field"
  cu_email :: "string field"
  cu_phone :: "string field"
  cu_company :: "string field"
  cu_job_title :: "string field"
  cu_status :: "ContactStatus field"
  cu_source :: "string field"
  cu_owner_id :: "int field"
  cu_tags :: "string list field"
  cu_notes :: "string field"
  cu_next_action :: "datetime field"

record InteractionUpdate =
  iu_type :: "InteractionType field"
  iu_occurred_at :: "datetime field"
  iu_summary :: "string field"
  iu_outcome :: "string field"
  iu_created_by :: "string field"

record ProposalUpdate =
  pu_title :: "string field"
  pu_description :: "string field"
  pu_value :: "int field"
  pu_status :: "ProposalStatus field"
  pu_applied_at :: "datetime field"
  pu_expires_at :: "datetime field"

record ActionUpdate =
  au_title :: "string field"
  au_description :: "string field"
  au_status :: "ActionStatus field"
  au_priority :: "ActionPriority field"
  au_action_type :: "ActionType field"
  au_due_at :: "datetime field"
  au_completed_at :: "datetime field"
  au_assigned_to :: "int field"
  au_proposal_id :: "int field"
  au_interaction_id :: "int field"

section \<open>What the SQL layer does\<close>

subsection \<open>ORDER BY, OFFSET, LIMIT\<close>

text \<open>
  \<open>ORDER BY\<close> says nothing of rows that its key does not separate: they come in
  the order in which the statement happens to read them, which the database chooses
  anew for each statement. A \<open>scan\<close> stands for that choice: it gives the rows of a
  query in the order the statement reads them (a permutation of them). \<open>order_by le\<close>
  then sorts the rows read by insertion, so that \<open>order_by le (scan rows)\<close> ranges
  over the orderings of \<open>rows\<close> by the key as \<open>scan\<close> ranges over the permutations.
\<close>

type_synonym 'a scan = "'a list \<Rightarrow> 'a list"

fun insert_by :: "('a \<Rightarrow> 'a \<Rightarrow> bool) \<Rightarrow> 'a \<Rightarrow> 'a list \<Rightarrow> 'a list" where
  "insert_by le x [] = [x]"
| "insert_by le x (y # ys) = (if le x y then x # y # ys else y # insert_by le x ys)"

definition order_by :: "('a \<Rightarrow> 'a \<Rightarrow> bool) \<Rightarrow> 'a list \<Rightarrow> 'a list" where
  "order_by le xs = foldr (insert_by le) xs []"

definition offset_limit :: "nat \<Rightarrow> nat \<Rightarrow> 'a list \<Rightarrow> 'a list" where
  "offset_limit skip limit xs = take limit (drop skip xs)"

subsection \<open>ILIKE\<close>

definition lower_char :: "char \<Rightarrow> char" where
  "lower_char c =
     (let n = (of_char c :: nat) in if 65 \<le> n \<and> n \<le> 90 then char_of (n + 32) else c)"

text \<open>
  \<open>like_match pattern s\<close>: \<open>%\<close> stands for any run of characters, \<open>_\<close> for one
  character, and a backslash takes the next pattern character literally.
\<close>

fun like_match :: "string \<Rightarrow> string \<Rightarrow> bool" where
  "like_match [] s = (s = [])"
| "like_match (p # ps) [] =
     (if p = CHR ''%'' then like_match ps [] else False)"
| "like_match (p # ps) (c # t) =
     (if p = CHR ''%'' then like_match ps (c # t) \<or> like_match (p # ps) t
      else if p = CHR ''_'' then like_match ps t
      else if p = CHR 0x5C then (case ps of [] \<Rightarrow> False | q # qs \<Rightarrow> c = q \<and> like_match qs t)
      else c = p \<and> like_match ps t)"

definition ilike :: "string option \<Rightarrow> string \<Rightarrow> bool" where
  "ilike col pattern =
     (case col of
        None \<Rightarrow> False
      | Some s \<Rightarrow> like_match (map lower_char pattern) (map lower_char s))"

subsection \<open>Array containment\<close>

text \<open>
  \<open>Contact.tags.contains(tags)\<close> is the array operator \<open>@>\<close>; a null array contains
  nothing. The list of the request is cast to the type of the column,
  \<open>VARCHAR(10)[]\<close>, and the cast cuts each listed tag to its first 10 characters.
\<close>

definition cast_varchar_10 :: "string \<Rightarrow> string" where
  "cast_varchar_10 t = take 10 t"

definition array_contains :: "string list option \<Rightarrow> string list \<Rightarrow> bool" where
  "array_contains col wanted =
     (case col of
        None \<Rightarrow> False
      | Some have \<Rightarrow> list_all (\<lambda>t. cast_varchar_10 t \<in> set have) wanted)"

subsection \<open>Comparisons with a nullable column\<close>

definition col_ge :: "int option \<Rightarrow> int \<Rightarrow> bool" where
  "col_ge col v = (case col of None \<Rightarrow> False | Some x \<Rightarrow> v \<le> x)"

definition col_le :: "int option \<Rightarrow> int \<Rightarrow> bool" where
  "col_le col v = (case col of None \<Rightarrow> False | Some x \<Rightarrow> x \<le> v)"

definition col_lt :: "int option \<Rightarrow> int \<Rightarrow> bool" where
  "col_lt col v = (case col of None \<Rightarrow> False | Some x \<Rightarrow> x < v)"

text \<open>\<open>if contact_id:\<close> of an optional integer: neither \<open>None\<close> nor \<open>0\<close>.\<close>

definition filter_by_id :: "int option \<Rightarrow> (int \<Rightarrow> 'a \<Rightarrow> bool) \<Rightarrow> 'a list \<Rightarrow> 'a list" where
  "filter_by_id arg p query =
     (case arg of
        None \<Rightarrow> query
      | Some v \<Rightarrow> if v = 0 then query else filter (p v) query)"

text \<open>
  \<open>if status:\<close> of an optional argument whose values are all truthy: an enumeration
  member (a non-empty string) or a datetime.
\<close>

definition filter_if_given :: "'e option \<Rightarrow> ('e \<Rightarrow> 'a \<Rightarrow> bool) \<Rightarrow> 'a list \<Rightarrow> 'a list" where
  "filter_if_given arg p query =
     (case arg of None \<Rightarrow> query | Some v \<Rightarrow> filter (p v) query)"

section \<open>The floats of Python\<close>

text \<open>
  A float is a binary64 number: \<open>Double m e\<close> is \<open>m * 2 ^ e\<close> with
  \<open>2 ^ 52 \<le> \<bar>m\<bar> < 2 ^ 53\<close>, and \<open>Double 0 0\<close> is zero, so that two floats are equal
  exactly when they are the same number. The exponent is not bounded (the amounts of
  a column \<open>Numeric(10, 2)\<close> and their sums are far from both ends of its range), and
  zero has no sign.

  \<open>round_ratio n d\<close> is the float nearest to \<open>n / d\<close> (for \<open>d > 0\<close>), the one with the
  even mantissa when two are equally near. \<open>bits n\<close> is the number of binary digits of
  \<open>n\<close>.
\<close>

datatype double = Double int int

function bits :: "int \<Rightarrow> nat" where
  "bits n = (if n \<le> 0 then 0 else Suc (bits (n div 2)))"
  by pat_completeness auto

termination
  by (relation "measure nat") auto

declare bits.simps [simp del]

definition round_half_even :: "int \<Rightarrow> int \<Rightarrow> int" where
  "round_half_even n d =
     (let q = n div d; r = n mod d
      in if 2 * r < d then q
         else if d < 2 * r then q + 1
         else if even q then q else q + 1)"

definition round_positive :: "int \<Rightarrow> int \<Rightarrow> double" where
  "round_positive n d =
     (let k = int (bits n) - int (bits d);
          fl = (if 0 \<le> k then (if d * 2 ^ nat k \<le> n then k else k - 1)
                else (if d \<le> n * 2 ^ nat (- k) then k else k - 1));
          sh = fl - 52;
          m = (if 0 \<le> sh then round_half_even n (d * 2 ^ nat sh)
               else round_half_even (n * 2 ^ nat (- sh)) d)
      in if m = 2 ^ 53 then Double (2 ^ 52) (sh + 1) else Double m sh)"

definition round_ratio :: "int \<Rightarrow> int \<Rightarrow> double" where
  "round_ratio n d =
     (if n = 0 then Double 0 0
      else if 0 < n then round_positive n d
      else (case round_positive (- n) d of Double m e \<Rightarrow> Double (- m) e))"

text \<open>
  \<open>float(total)\<close> of a \<open>Decimal\<close> with two decimal places, given as its number of
  hundredths, is correctly rounded.
\<close>

definition float_of_decimal :: "int \<Rightarrow> double" where
  "float_of_decimal hundredths = round_ratio hundredths 100"

text \<open>Addition, subtraction, \<open>fabs\<close> and \<open>>=\<close> of floats.\<close>

fun float_add :: "double \<Rightarrow> double \<Rightarrow> double" where
  "float_add (Double m1 e1) (Double m2 e2) =
     (let e = min e1 e2;
          n = m1 * 2 ^ nat (e1 - e) + m2 * 2 ^ nat (e2 - e)
      in if 0 \<le> e then round_ratio (n * 2 ^ nat e) 1 else round_ratio n (2 ^ nat (- e)))"

fun float_neg :: "double \<Rightarrow> double" where
  "float_neg (Double m e) = Double (- m) e"

definition float_sub :: "double \<Rightarrow> double \<Rightarrow> double" where
  "float_sub x y = float_add x (float_neg y)"

fun fabs :: "double \<Rightarrow> double" where
  "fabs (Double m e) = Double \<bar>m\<bar> e"

fun float_ge :: "double \<Rightarrow> double \<Rightarrow> bool" where
  "float_ge (Double m1 e1) (Double m2 e2) =
     (let e = min e1 e2 in m2 * 2 ^ nat (e2 - e) \<le> m1 * 2 ^ nat (e1 - e))"

text \<open>
  The builtin \<open>sum\<close> on a list of floats starts from the integer 0, to which the first
  float is added as it is. Up to CPython 3.11 it then adds the floats one after the
  other; from CPython 3.12 it also keeps the rounding errors in a compensation \<open>c\<close>
  (Neumaier's summation) and adds \<open>c\<close> at the end. The sum of no float is the
  integer 0.
\<close>

datatype python = CPython_3_11 | CPython_3_12

fun sum_compensated :: "double \<Rightarrow> double \<Rightarrow> double list \<Rightarrow> double" where
  "sum_compensated f_result c [] =
     (if c \<noteq> Double 0 0 then float_add f_result c else f_result)"
| "sum_compensated f_result c (x # items) =
     (let t = float_add f_result x;
          c = (if float_ge (fabs f_result) (fabs x)
               then float_add c (float_add (float_sub f_result t) x)
               else float_add c (float_add (float_sub x t) f_result))
      in sum_compensated t c items)"

fun py_sum :: "python \<Rightarrow> double list \<Rightarrow> double" where
  "py_sum py [] = Double 0 0"
| "py_sum CPython_3_11 (x # items) = foldl float_add x items"
| "py_sum CPython_3_12 (x # items) = sum_compensated x (Double 0 0) items"

section \<open>Contacts (app/crud/contact.py)\<close>

definition get_contact :: "database \<Rightarrow> int \<Rightarrow> Contact option" where
  "get_contact db contact_id = find (\<lambda>c. c_id c = contact_id) (contacts db)"

definition get_contact_by_email :: "database \<Rightarrow> string \<Rightarrow> Contact option" where
  "get_contact_by_email db email = find (\<lambda>c. c_email c = Some email) (contacts db)"

definition created_at_desc :: "Contact \<Rightarrow> Contact \<Rightarrow> bool" where
  "created_at_desc a b = (c_created_at b \<le> c_created_at a)"

definition contacts_search :: "string \<Rightarrow> Contact \<Rightarrow> bool" where
  "contacts_search search c =
     (let search_pattern = ''%'' @ search @ ''%'' in
        ilike (Some (c_first_name c)) search_pattern
        \<or> ilike (Some (c_last_name c)) search_pattern
        \<or> ilike (c_email c) search_pattern
        \<or> ilike (c_company c) search_pattern)"

text \<open>The \<open>query\<close> of \<open>get_contacts\<close> once its three optional filters are applied.\<close>

definition contacts_query ::
  "database \<Rightarrow> ContactStatus option \<Rightarrow> string option \<Rightarrow> string list option \<Rightarrow> Contact list" where
  "contacts_query db status search tags =
     (let query = contacts db;
          query = filter_if_given status (\<lambda>v c. c_status c = v) query;
          query = (case search of
                     None \<Rightarrow> query
                   | Some s \<Rightarrow> if s = [] then query else filter (contacts_search s) query);
          query = (case tags of
                     None \<Rightarrow> query
                   | Some ts \<Rightarrow> if ts = [] then query
                               else filter (\<lambda>c. array_contains (c_tags c) ts) query)
      in query)"

definition get_contacts ::
  "database \<Rightarrow> Contact scan \<Rightarrow> nat \<Rightarrow> nat \<Rightarrow> ContactStatus option \<Rightarrow> string option
     \<Rightarrow> string list option \<Rightarrow> Contact list \<times> nat" where
  "get_contacts db scan skip limit status search tags =
     (let query = contacts_query db status search tags;
          total = length query;
          contacts = offset_limit skip limit (order_by created_at_desc (scan query))
      in (contacts, total))"

text \<open>
  \<open>setattr\<close> with a \<open>Given\<close> field. A \<open>nullable=False\<close> column refuses a null when
  the session commits, which \<open>not_null_ok\<close> decides before \<open>required\<close> is read.
\<close>

definition nullable :: "'a field \<Rightarrow> 'a option \<Rightarrow> 'a option" where
  "nullable f old = (case f of Unset \<Rightarrow> old | Given v \<Rightarrow> v)"

definition required :: "'a field \<Rightarrow> 'a \<Rightarrow> 'a" where
  "required f old = (case f of Unset \<Rightarrow> old | Given None \<Rightarrow> old | Given (Some v) \<Rightarrow> v)"

definition not_null_ok :: "'a field \<Rightarrow> bool" where
  "not_null_ok f = (case f of Given None \<Rightarrow> False | _ \<Rightarrow> True)"

text \<open>The unique index on \<open>contacts.email\<close>: two nulls never collide.\<close>

definition email_unique_ok :: "Contact list \<Rightarrow> int \<Rightarrow> string option \<Rightarrow> bool" where
  "email_unique_ok rows self email =
     (case email of
        None \<Rightarrow> True
      | Some e \<Rightarrow> \<not> list_ex (\<lambda>r. c_id r \<noteq> self \<and> c_email r = Some e) rows)"

text \<open>
  The insert takes the next value of the sequence, also when the database then refuses
  the row (primary key, unique index) and the commit raises \<open>IntegrityError\<close>.
\<close>

definition create_contact ::
  "database \<Rightarrow> ContactCreate \<Rightarrow> datetime \<Rightarrow> (error + Contact) \<times> database" where
  "create_contact db contact db_now =
     (let new_id = contacts_id_seq db + 1;
          db = db\<lparr>contacts_id_seq := new_id\<rparr>;
          db_contact =
            \<lparr>c_id = new_id,
             c_first_name = cc_first_name contact,
             c_last_name = cc_last_name contact,
             c_email = cc_email contact,
             c_phone = cc_phone contact,
             c_company = cc_company contact,
             c_job_title = cc_job_title contact,
             c_status = cc_status contact,
             c_source = cc_source contact,
             c_owner_id = cc_owner_id contact,
             c_tags = Some (cc_tags contact),
             c_notes = cc_notes contact,
             c_next_action = cc_next_action contact,
             c_created_at = db_now,
             c_updated_at = db_now\<rparr>
      in if list_ex (\<lambda>r. c_id r = new_id) (contacts db)
            \<or> \<not> email_unique_ok (contacts db) new_id (cc_email contact)
         then (Inl IntegrityError, db)
         else (Inr db_contact, db\<lparr>contacts := contacts db @ [db_contact]\<rparr>))"

definition contact_setattrs :: "Contact \<Rightarrow> ContactUpdate \<Rightarrow> Contact" where
  "contact_setattrs c u =
     c\<lparr>c_first_name := required (cu_first_name u) (c_first_name c),
       c_last_name := required (cu_last_name u) (c_last_name c),
       c_email := nullable (cu_email u) (c_email c),
       c_phone := nullable (cu_phone u) (c_phone c),
       c_company := nullable (cu_company u) (c_company c),
       c_job_title := nullable (cu_job_title u) (c_job_title c),
       c_status := required (cu_status u) (c_status c),
       c_source := nullable (cu_source u) (c_source c),
       c_owner_id := nullable (cu_owner_id u) (c_owner_id c),
       c_tags := nullable (cu_tags u) (c_tags c),
       c_notes := nullable (cu_notes u) (c_notes c),
       c_next_action := nullable (cu_next_action u) (c_next_action c)\<rparr>"

text \<open>
  The commit writes the row only when a column changed, and \<open>onupdate=func.now()\<close>
  refreshes \<open>updated_at\<close> with that write.
\<close>

definition update_contact ::
  "database \<Rightarrow> int \<Rightarrow> ContactUpdate \<Rightarrow> datetime \<Rightarrow> (error + Contact option) \<times> database" where
  "update_contact db contact_id contact_update db_now =
     (case get_contact db contact_id of
        None \<Rightarrow> (Inr None, db)
      | Some db_contact \<Rightarrow>
          if \<not> (not_null_ok (cu_first_name contact_update)
                \<and> not_null_ok (cu_last_name contact_update)
                \<and> not_null_ok (cu_status contact_update))
          then (Inl IntegrityError, db)
          else
            let changed = contact_setattrs db_contact contact_update in
            if \<not> email_unique_ok (contacts db) contact_id (c_email changed)
            then (Inl IntegrityError, db)
            else if changed = db_contact then (Inr (Some db_contact), db)
            else
              let stored = changed\<lparr>c_updated_at := db_now\<rparr> in
              (Inr (Some stored),
               db\<lparr>contacts := map (\<lambda>r. if c_id r = contact_id then stored else r) (contacts db)\<rparr>))"

text \<open>
  Deleting a contact deletes its interactions, proposals and actions
  (\<open>cascade="all, delete-orphan"\<close>, \<open>ondelete="CASCADE"\<close>), and with a deleted
  interaction or proposal the actions that point to it.
\<close>

definition delete_contact :: "database \<Rightarrow> int \<Rightarrow> bool \<times> database" where
  "delete_contact db contact_id =
     (case get_contact db contact_id of
        None \<Rightarrow> (False, db)
      | Some db_contact \<Rightarrow>
          let gone_i = map i_id (filter (\<lambda>i. i_contact_id i = contact_id) (interactions db));
              gone_p = map p_id (filter (\<lambda>p. p_contact_id p = contact_id) (proposals db))
          in (True,
              db\<lparr>contacts := filter (\<lambda>c. c_id c \<noteq> contact_id) (contacts db),
                 interactions := filter (\<lambda>i. i_contact_id i \<noteq> contact_id) (interactions db),
                 proposals := filter (\<lambda>p. p_contact_id p \<noteq> contact_id) (proposals db),
                 actions :=
                   filter (\<lambda>a. a_contact_id a \<noteq> contact_id
                               \<and> (case a_interaction_id a of None \<Rightarrow> True | Some i \<Rightarrow> i \<notin> set gone_i)
                               \<and> (case a_proposal_id a of None \<Rightarrow> True | Some p \<Rightarrow> p \<notin> set gone_p))
                     (actions db)\<rparr>))"

section \<open>Contact routes (app/api/contacts.py)\<close>

definition api_create_contact ::
  "database \<Rightarrow> ContactCreate \<Rightarrow> datetime \<Rightarrow> (error + Contact) \<times> database" where
  "api_create_contact db contact db_now =
     (case cc_email contact of
        None \<Rightarrow> create_contact db contact db_now
      | Some email \<Rightarrow>
          if email \<noteq> [] \<and> get_contact_by_email db email \<noteq> None
          then (Inl (HTTPException 400 ''Email already registered''), db)
          else create_contact db contact db_now)"

definition email_registered_elsewhere :: "database \<Rightarrow> int \<Rightarrow> string \<Rightarrow> bool" where
  "email_registered_elsewhere db contact_id email =
     (case get_contact_by_email db email of
        None \<Rightarrow> False
      | Some existing \<Rightarrow> c_id existing \<noteq> contact_id)"

definition api_update_contact ::
  "database \<Rightarrow> int \<Rightarrow> ContactUpdate \<Rightarrow> datetime \<Rightarrow> (error + Contact) \<times> database" where
  "api_update_contact db contact_id contact_update db_now =
     (let conflict =
            (case cu_email contact_update of
               Given (Some email) \<Rightarrow>
                 email \<noteq> [] \<and> email_registered_elsewhere db contact_id email
             | _ \<Rightarrow> False)
      in if conflict then (Inl (HTTPException 400 ''Email already registered''), db)
         else
           (case update_contact db contact_id contact_update db_now of
              (Inl e, db') \<Rightarrow> (Inl e, db')
            | (Inr None, db') \<Rightarrow> (Inl (HTTPException 404 ''Contact not found''), db')
            | (Inr (Some updated), db') \<Rightarrow> (Inr updated, db')))"

section \<open>Interactions (app/crud/interaction.py)\<close>

definition get_interaction :: "database \<Rightarrow> int \<Rightarrow> Interaction option" where
  "get_interaction db interaction_id = find (\<lambda>i. i_id i = interaction_id) (interactions db)"

definition occurred_at_desc :: "Interaction \<Rightarrow> Interaction \<Rightarrow> bool" where
  "occurred_at_desc a b = (i_occurred_at b \<le> i_occurred_at a)"

definition interactions_query ::
  "database \<Rightarrow> int option \<Rightarrow> InteractionType option \<Rightarrow> datetime option \<Rightarrow> datetime option
     \<Rightarrow> Interaction list" where
  "interactions_query db contact_id interaction_type start_date end_date =
     (let query = interactions db;
          query = filter_by_id contact_id (\<lambda>v i. i_contact_id i = v) query;
          query = filter_if_given interaction_type (\<lambda>v i. i_type i = v) query;
          query = filter_if_given start_date (\<lambda>v i. v \<le> i_occurred_at i) query;
          query = filter_if_given end_date (\<lambda>v i. i_occurred_at i \<le> v) query
      in query)"

definition get_interactions ::
  "database \<Rightarrow> Interaction scan \<Rightarrow> nat \<Rightarrow> nat \<Rightarrow> int option \<Rightarrow> InteractionType option
     \<Rightarrow> datetime option \<Rightarrow> datetime option \<Rightarrow> Interaction list \<times> nat" where
  "get_interactions db scan skip limit contact_id interaction_type start_date end_date =
     (let query = interactions_query db contact_id interaction_type start_date end_date;
          total = length query;
          interactions = offset_limit skip limit (order_by occurred_at_desc (scan query))
      in (interactions, total))"

definition interaction_setattrs :: "Interaction \<Rightarrow> InteractionUpdate \<Rightarrow> Interaction" where
  "interaction_setattrs i u =
     i\<lparr>i_type := required (iu_type u) (i_type i),
       i_occurred_at := required (iu_occurred_at u) (i_occurred_at i),
       i_summary := required (iu_summary u) (i_summary i),
       i_outcome := nullable (iu_outcome u) (i_outcome i),
       i_created_by := nullable (iu_created_by u) (i_created_by i)\<rparr>"

definition update_interaction ::
  "database \<Rightarrow> int \<Rightarrow> InteractionUpdate \<Rightarrow> datetime
     \<Rightarrow> (error + Interaction option) \<times> database" where
  "update_interaction db interaction_id interaction_update db_now =
     (case get_interaction db interaction_id of
        None \<Rightarrow> (Inr None, db)
      | Some db_interaction \<Rightarrow>
          if \<not> (not_null_ok (iu_type interaction_update)
                \<and> not_null_ok (iu_occurred_at interaction_update)
                \<and> not_null_ok (iu_summary interaction_update))
          then (Inl IntegrityError, db)
          else
            let changed = interaction_setattrs db_interaction interaction_update in
            if changed = db_interaction then (Inr (Some db_interaction), db)
            else
              let stored = changed\<lparr>i_updated_at := db_now\<rparr> in
              (Inr (Some stored),
               db\<lparr>interactions :=
                    map (\<lambda>r. if i_id r = interaction_id then stored else r) (interactions db)\<rparr>))"

definition delete_interaction :: "database \<Rightarrow> int \<Rightarrow> bool \<times> database" where
  "delete_interaction db interaction_id =
     (case get_interaction db interaction_id of
        None \<Rightarrow> (False, db)
      | Some db_interaction \<Rightarrow>
          (True,
           db\<lparr>interactions := filter (\<lambda>i. i_id i \<noteq> interaction_id) (interactions db),
              actions := filter (\<lambda>a. a_interaction_id a \<noteq> Some interaction_id) (actions db)\<rparr>))"

section \<open>Proposals (app/crud/proposal.py)\<close>

definition get_proposal :: "database \<Rightarrow> int \<Rightarrow> Proposal option" where
  "get_proposal db proposal_id = find (\<lambda>p. p_id p = proposal_id) (proposals db)"

definition proposal_created_at_desc :: "Proposal \<Rightarrow> Proposal \<Rightarrow> bool" where
  "proposal_created_at_desc a b = (p_created_at b \<le> p_created_at a)"

definition proposals_query ::
  "database \<Rightarrow> int option \<Rightarrow> ProposalStatus option \<Rightarrow> int option \<Rightarrow> int option
     \<Rightarrow> Proposal list" where
  "proposals_query db contact_id status min_value max_value =
     (let query = proposals db;
          query = filter_by_id contact_id (\<lambda>v p. p_contact_id p = v) query;
          query = filter_if_given status (\<lambda>v p. p_status p = v) query;
          query = (case min_value of
                     None \<Rightarrow> query
                   | Some v \<Rightarrow> filter (\<lambda>p. col_ge (p_value p) v) query);
          query = (case max_value of
                     None \<Rightarrow> query
                   | Some v \<Rightarrow> filter (\<lambda>p. col_le (p_value p) v) query)
      in query)"

definition get_proposals ::
  "database \<Rightarrow> Proposal scan \<Rightarrow> nat \<Rightarrow> nat \<Rightarrow> int option \<Rightarrow> ProposalStatus option
     \<Rightarrow> int option \<Rightarrow> int option \<Rightarrow> Proposal list \<times> nat" where
  "get_proposals db scan skip limit contact_id status min_value max_value =
     (let query = proposals_query db contact_id status min_value max_value;
          total = length query;
          proposals = offset_limit skip limit (order_by proposal_created_at_desc (scan query))
      in (proposals, total))"

definition proposal_setattrs :: "Proposal \<Rightarrow> ProposalUpdate \<Rightarrow> Proposal" where
  "proposal_setattrs p u =
     p\<lparr>p_title := required (pu_title u) (p_title p),
       p_description := nullable (pu_description u) (p_description p),
       p_value := nullable (pu_value u) (p_value p),
       p_status := required (pu_status u) (p_status p),
       p_applied_at := nullable (pu_applied_at u) (p_applied_at p),
       p_expires_at := nullable (pu_expires_at u) (p_expires_at p)\<rparr>"

definition update_proposal ::
  "database \<Rightarrow> int \<Rightarrow> ProposalUpdate \<Rightarrow> datetime \<Rightarrow> (error + Proposal option) \<times> database" where
  "update_proposal db proposal_id proposal_update db_now =
     (case get_proposal db proposal_id of
        None \<Rightarrow> (Inr None, db)
      | Some db_proposal \<Rightarrow>
          if \<not> (not_null_ok (pu_title proposal_update)
                \<and> not_null_ok (pu_status proposal_update))
          then (Inl IntegrityError, db)
          else
            let changed = proposal_setattrs db_proposal proposal_update in
            if changed = db_proposal then (Inr (Some db_proposal), db)
            else
              let stored = changed\<lparr>p_updated_at := db_now\<rparr> in
              (Inr (Some stored),
               db\<lparr>proposals :=
                    map (\<lambda>r. if p_id r = proposal_id then stored else r) (proposals db)\<rparr>))"

definition delete_proposal :: "database \<Rightarrow> int \<Rightarrow> bool \<times> database" where
  "delete_proposal db proposal_id =
     (case get_proposal db proposal_id of
        None \<Rightarrow> (False, db)
      | Some db_proposal \<Rightarrow>
          (True,
           db\<lparr>proposals := filter (\<lambda>p. p_id p \<noteq> proposal_id) (proposals db),
              actions := filter (\<lambda>a. a_proposal_id a \<noteq> Some proposal_id) (actions db)\<rparr>))"

text \<open>
  \<open>GROUP BY\<close> a column: one result row for each value that occurs. \<open>SUM\<close> skips
  nulls and is null when nothing is left. The result rows of the two grouped queries
  of the proposals come in an order that the statement chooses: a \<open>scan\<close> of the groups.
\<close>

definition group_keys :: "('r \<Rightarrow> 'k) \<Rightarrow> 'r list \<Rightarrow> 'k list" where
  "group_keys key rows = remdups (map key rows)"

definition sql_sum :: "int option list \<Rightarrow> int option" where
  "sql_sum vs =
     (case List.map_filter (\<lambda>v. v) vs of
        [] \<Rightarrow> None
      | x # xs \<Rightarrow> Some (sum_list (x # xs)))"

definition count_proposals_by_status ::
  "database \<Rightarrow> ProposalStatus scan \<Rightarrow> int option \<Rightarrow> (ProposalStatus \<times> nat) list" where
  "count_proposals_by_status db scan contact_id =
     (let query = filter_by_id contact_id (\<lambda>v p. p_contact_id p = v) (proposals db);
          results = map (\<lambda>k. (k, length (filter (\<lambda>p. p_status p = k) query)))
                      (scan (group_keys p_status query))
      in results)"

text \<open>
  \<open>float(total) if total else 0.0\<close>: a null sum and a zero sum both give 0.0, any other
  sum the float nearest to it.
\<close>

definition get_total_value_by_status ::
  "database \<Rightarrow> ProposalStatus scan \<Rightarrow> int option \<Rightarrow> (ProposalStatus \<times> double) list" where
  "get_total_value_by_status db scan contact_id =
     (let query = filter_by_id contact_id (\<lambda>v p. p_contact_id p = v) (proposals db);
          results = map (\<lambda>k. (k, sql_sum (map p_value (filter (\<lambda>p. p_status p = k) query))))
                      (scan (group_keys p_status query))
      in map (\<lambda>(status, total).
                (status,
                 case total of
                   None \<Rightarrow> Double 0 0
                 | Some t \<Rightarrow> if t = 0 then Double 0 0 else float_of_decimal t))
           results)"

section \<open>Proposal statistics (app/api/proposals.py)\<close>

definition ProposalStatus_members :: "ProposalStatus list" where
  "ProposalStatus_members =
     [ProposalStatus_draft, ProposalStatus_submitted, ProposalStatus_won,
      ProposalStatus_lost, ProposalStatus_ignored, ProposalStatus_expired]"

fun ProposalStatus_value :: "ProposalStatus \<Rightarrow> string" where
  "ProposalStatus_value ProposalStatus_draft = ''draft''"
| "ProposalStatus_value ProposalStatus_submitted = ''submitted''"
| "ProposalStatus_value ProposalStatus_won = ''won''"
| "ProposalStatus_value ProposalStatus_lost = ''lost''"
| "ProposalStatus_value ProposalStatus_ignored = ''ignored''"
| "ProposalStatus_value ProposalStatus_expired = ''expired''"

text \<open>\<open>d.get(key, default)\<close> on a dictionary built from the result rows.\<close>

definition dict_get :: "('k \<times> 'v) list \<Rightarrow> 'k \<Rightarrow> 'v \<Rightarrow> 'v" where
  "dict_get d k dflt = (case map_of d k of None \<Rightarrow> dflt | Some v \<Rightarrow> v)"

record status_stats =
  stat_count :: nat
  stat_total_value :: double

record proposal_stats =
  total_count :: nat
  total_value :: double
  by_status :: "(string \<times> status_stats) list"

text \<open>
  The two grouped queries are two statements, each with its own order of result rows.
  \<open>sum(counts.values())\<close> adds integers, \<open>sum(totals.values())\<close> adds floats in the
  order of the rows of the second query.
\<close>

definition get_proposal_stats ::
  "python \<Rightarrow> database \<Rightarrow> ProposalStatus scan \<Rightarrow> ProposalStatus scan \<Rightarrow> int option
     \<Rightarrow> error + proposal_stats" where
  "get_proposal_stats py db scan_counts scan_totals contact_id =
     (let missing =
            (case contact_id of
               None \<Rightarrow> False
             | Some v \<Rightarrow> v \<noteq> 0 \<and> get_contact db v = None)
      in if missing then Inl (HTTPException 404 ''Contact not found'')
         else
           let counts = count_proposals_by_status db scan_counts contact_id;
               totals = get_total_value_by_status db scan_totals contact_id
           in Inr \<lparr>total_count = sum_list (map snd counts),
                   total_value = py_sum py (map snd totals),
                   by_status =
                     map (\<lambda>status.
                            (ProposalStatus_value status,
                             \<lparr>stat_count = dict_get counts status 0,
                              stat_total_value = dict_get totals status (Double 0 0)\<rparr>))
                       ProposalStatus_members\<rparr>)"

section \<open>Actions (app/crud/action.py)\<close>

definition get_action :: "database \<Rightarrow> int \<Rightarrow> Action option" where
  "get_action db action_id = find (\<lambda>a. a_id a = action_id) (actions db)"

text \<open>
  The column \<open>Enum(ActionPriority)\<close> is a database enumeration whose labels compare in
  the order of their declaration: low, medium, high, urgent.
\<close>

fun priority_rank :: "ActionPriority \<Rightarrow> nat" where
  "priority_rank ActionPriority_low = 0"
| "priority_rank ActionPriority_medium = 1"
| "priority_rank ActionPriority_high = 2"
| "priority_rank ActionPriority_urgent = 3"

text \<open>An ascending sort key puts its nulls last.\<close>

fun asc_nulls_last :: "datetime option \<Rightarrow> datetime option \<Rightarrow> bool" where
  "asc_nulls_last (Some x) (Some y) = (x \<le> y)"
| "asc_nulls_last (Some x) None = True"
| "asc_nulls_last None (Some y) = False"
| "asc_nulls_last None None = True"

text \<open>\<open>order_by(Action.priority.desc(), Action.due_at.asc())\<close>\<close>

definition priority_desc_due_at_asc :: "Action \<Rightarrow> Action \<Rightarrow> bool" where
  "priority_desc_due_at_asc a b =
     (priority_rank (a_priority b) < priority_rank (a_priority a)
      \<or> (priority_rank (a_priority a) = priority_rank (a_priority b)
          \<and> asc_nulls_last (a_due_at a) (a_due_at b)))"

definition actions_query ::
  "database \<Rightarrow> int option \<Rightarrow> ActionStatus option \<Rightarrow> ActionPriority option \<Rightarrow> ActionType option
     \<Rightarrow> int option \<Rightarrow> bool \<Rightarrow> datetime \<Rightarrow> Action list" where
  "actions_query db contact_id status priority action_type assigned_to overdue_only now =
     (let query = actions db;
          query = filter_by_id contact_id (\<lambda>v a. a_contact_id a = v) query;
          query = filter_if_given status (\<lambda>v a. a_status a = v) query;
          query = filter_if_given priority (\<lambda>v a. a_priority a = v) query;
          query = filter_if_given action_type (\<lambda>v a. a_action_type a = v) query;
          query = filter_by_id assigned_to (\<lambda>v a. a_assigned_to a = Some v) query;
          query = (if overdue_only
                   then filter (\<lambda>a. a_status a = ActionStatus_pending \<and> col_lt (a_due_at a) now)
                          query
                   else query)
      in query)"

definition get_actions ::
  "database \<Rightarrow> Action scan \<Rightarrow> nat \<Rightarrow> nat \<Rightarrow> int option \<Rightarrow> ActionStatus option
     \<Rightarrow> ActionPriority option \<Rightarrow> ActionType option \<Rightarrow> int option \<Rightarrow> bool \<Rightarrow> datetime
     \<Rightarrow> Action list \<times> nat" where
  "get_actions db scan skip limit contact_id status priority action_type assigned_to overdue_only
     now =
     (let query =
            actions_query db contact_id status priority action_type assigned_to overdue_only now;
          total = length query;
          actions = offset_limit skip limit (order_by priority_desc_due_at_asc (scan query))
      in (actions, total))"

definition action_setattrs :: "Action \<Rightarrow> ActionUpdate \<Rightarrow> Action" where
  "action_setattrs a u =
     a\<lparr>a_title := required (au_title u) (a_title a),
       a_description := nullable (au_description u) (a_description a),
       a_status := required (au_status u) (a_status a),
       a_priority := required (au_priority u) (a_priority a),
       a_action_type := required (au_action_type u) (a_action_type a),
       a_due_at := nullable (au_due_at u) (a_due_at a),
       a_completed_at := nullable (au_completed_at u) (a_completed_at a),
       a_assigned_to := nullable (au_assigned_to u) (a_assigned_to a),
       a_proposal_id := nullable (au_proposal_id u) (a_proposal_id a),
       a_interaction_id := nullable (au_interaction_id u) (a_interaction_id a)\<rparr>"

text \<open>The foreign keys of an action, checked for the references a write changes.\<close>

definition action_references_ok :: "database \<Rightarrow> Action \<Rightarrow> Action \<Rightarrow> bool" where
  "action_references_ok db old new =
     ((a_proposal_id new = a_proposal_id old
       \<or> (case a_proposal_id new of None \<Rightarrow> True | Some p \<Rightarrow> get_proposal db p \<noteq> None))
      \<and> (a_interaction_id new = a_interaction_id old
          \<or> (case a_interaction_id new of
                None \<Rightarrow> True
              | Some i \<Rightarrow> get_interaction db i \<noteq> None)))"

text \<open>
  \<open>now\<close> is the clock of the application (\<open>datetime.now(timezone.utc)\<close>), \<open>db_now\<close>
  the one of the database (\<open>func.now()\<close>). The first definition is the block
  of \<open>update_action\<close> that sets \<open>update_data["completed_at"]\<close>.
\<close>

definition stamp_completed_at :: "Action \<Rightarrow> ActionUpdate \<Rightarrow> datetime \<Rightarrow> ActionUpdate" where
  "stamp_completed_at db_action update_data now =
     (if au_status update_data = Given (Some ActionStatus_completed)
         \<and> a_completed_at db_action = None
      then update_data\<lparr>au_completed_at := Given (Some now)\<rparr>
      else update_data)"

definition update_action ::
  "database \<Rightarrow> int \<Rightarrow> ActionUpdate \<Rightarrow> datetime \<Rightarrow> datetime
     \<Rightarrow> (error + Action option) \<times> database" where
  "update_action db action_id action_update now db_now =
     (case get_action db action_id of
        None \<Rightarrow> (Inr None, db)
      | Some db_action \<Rightarrow>
          let update_data = stamp_completed_at db_action action_update now in
          if \<not> (not_null_ok (au_title update_data)
                \<and> not_null_ok (au_status update_data)
                \<and> not_null_ok (au_priority update_data)
                \<and> not_null_ok (au_action_type update_data))
          then (Inl IntegrityError, db)
          else
            let changed = action_setattrs db_action update_data in
            if \<not> action_references_ok db db_action changed then (Inl IntegrityError, db)
            else if changed = db_action then (Inr (Some db_action), db)
            else
              let stored = changed\<lparr>a_updated_at := db_now\<rparr> in
              (Inr (Some stored),
               db\<lparr>actions := map (\<lambda>r. if a_id r = action_id then stored else r) (actions db)\<rparr>))"

definition delete_action :: "database \<Rightarrow> int \<Rightarrow> bool \<times> database" where
  "delete_action db action_id =
     (case get_action db action_id of
        None \<Rightarrow> (False, db)
      | Some db_action \<Rightarrow> (True, db\<lparr>actions := filter (\<lambda>a. a_id a \<noteq> action_id) (actions db)\<rparr>))"

text \<open>
  The grouped counts name the column they select and the column they group by. The
  database refuses a query that selects a column it does not group by.
\<close>

datatype ActionColumn = Action_status | Action_action_type | Action_priority

datatype ActionValue =
  StatusValue ActionStatus | TypeValue ActionType | PriorityValue ActionPriority

fun column_value :: "ActionColumn \<Rightarrow> Action \<Rightarrow> ActionValue" where
  "column_value Action_status a = StatusValue (a_status a)"
| "column_value Action_action_type a = TypeValue (a_action_type a)"
| "column_value Action_priority a = PriorityValue (a_priority a)"

definition count_group_by ::
  "ActionColumn \<Rightarrow> ActionColumn \<Rightarrow> Action list \<Rightarrow> error + (ActionValue \<times> nat) list" where
  "count_group_by selected grouped query =
     (if selected \<noteq> grouped then Inl ProgrammingError
      else Inr (map (\<lambda>k. (k, length (filter (\<lambda>a. column_value grouped a = k) query)))
                  (group_keys (column_value grouped) query)))"

definition count_actions_by_status ::
  "database \<Rightarrow> int option \<Rightarrow> error + (ActionValue \<times> nat) list" where
  "count_actions_by_status db contact_id =
     count_group_by Action_status Action_status
       (filter_by_id contact_id (\<lambda>v a. a_contact_id a = v) (actions db))"

definition count_actions_by_type ::
  "database \<Rightarrow> int option \<Rightarrow> error + (ActionValue \<times> nat) list" where
  "count_actions_by_type db contact_id =
     count_group_by Action_status Action_action_type
       (filter_by_id contact_id (\<lambda>v a. a_contact_id a = v) (actions db))"

definition count_actions_by_priority ::
  "database \<Rightarrow> int option \<Rightarrow> error + (ActionValue \<times> nat) list" where
  "count_actions_by_priority db contact_id =
     count_group_by Action_priority Action_priority
       (filter_by_id contact_id (\<lambda>v a. a_contact_id a = v)
          (filter (\<lambda>a. a_status a = ActionStatus_pending) (actions db)))"

section \<open>Notions used to state the properties\<close>

text \<open>
  The pages fetched at \<open>skip = 0, limit, 2 * limit, \<dots>, (n - 1) * limit\<close>, one after the
  other, and the number of pages that \<open>rows\<close> rows fill.
\<close>

definition pages_concat :: "(nat \<Rightarrow> 'a list) \<Rightarrow> nat \<Rightarrow> nat \<Rightarrow> 'a list" where
  "pages_concat page_at limit n = concat (map (\<lambda>k. page_at (k * limit)) [0..<n])"

definition page_count :: "nat \<Rightarrow> nat \<Rightarrow> nat" where
  "page_count rows limit = (rows + limit - 1) div limit"

text \<open>
  A scan that is a permutation gives back the rows it is given, each as often as it was
  given, in some order. An ordering has no ties on \<open>rows\<close> when it separates any two
  different rows of them.
\<close>

definition permutation :: "'a scan \<Rightarrow> bool" where
  "permutation scan = (\<forall>rows. mset (scan rows) = mset rows)"

definition no_ties :: "('a \<Rightarrow> 'a \<Rightarrow> bool) \<Rightarrow> 'a list \<Rightarrow> bool" where
  "no_ties le rows = (\<forall>a\<in>set rows. \<forall>b\<in>set rows. le a b \<and> le b a \<longrightarrow> a = b)"

text \<open>
  \<open>page\<close> holds the rows \<open>skip + 1, \<dots>, skip + limit\<close> of \<open>rows\<close> in one of their orderings
  by \<open>le\<close>. \<open>pages\<close> is the whole of \<open>rows\<close> in one of their orderings by \<open>le\<close>: each
  row as often as in \<open>rows\<close> (none repeated, none left out), and no key twice when
  \<open>rows\<close> has no key twice.
\<close>

definition page_of :: "('a \<Rightarrow> 'a \<Rightarrow> bool) \<Rightarrow> 'a list \<Rightarrow> nat \<Rightarrow> nat \<Rightarrow> 'a list \<Rightarrow> bool" where
  "page_of le rows skip limit page =
     (\<exists>ordered. mset ordered = mset rows \<and> sorted_wrt le ordered
                \<and> page = take limit (drop skip ordered))"

definition whole_list :: "('a \<Rightarrow> 'a \<Rightarrow> bool) \<Rightarrow> ('a \<Rightarrow> int) \<Rightarrow> 'a list \<Rightarrow> 'a list \<Rightarrow> bool" where
  "whole_list le key rows pages =
     (mset pages = mset rows \<and> sorted_wrt le pages
      \<and> (distinct (map key rows) \<longrightarrow> distinct (map key pages)))"

text \<open>
  A list query \<open>get scan skip limit\<close>, which returns a page and a total, paginates
  \<open>rows\<close> in the ordering \<open>le\<close> when, for every page size \<open>limit \<ge> 1\<close>:
  the total is the number of \<open>rows\<close> whatever \<open>skip\<close>, \<open>limit\<close> and the scan are; a page
  has at most \<open>limit\<close> rows and is a page of \<open>rows\<close> in one of their orderings; and
  the pages at \<open>skip = 0, limit, 2 * limit, \<dots>\<close>, once there are enough of them to hold
  that many rows, concatenate to the whole of \<open>rows\<close>, both when every page is read by
  the same scan and when each page is read by a scan of its own, \<open>scans skip\<close>, and the
  ordering has no ties on \<open>rows\<close>.
\<close>

definition paginates ::
  "('a scan \<Rightarrow> nat \<Rightarrow> nat \<Rightarrow> 'a list \<times> nat) \<Rightarrow> ('a \<Rightarrow> 'a \<Rightarrow> bool) \<Rightarrow> ('a \<Rightarrow> int) \<Rightarrow> 'a list
     \<Rightarrow> bool" where
  "paginates get le key rows =
     (\<forall>limit\<ge>1.
        (\<forall>scan skip.
           snd (get scan skip limit) = length rows
           \<and> length (fst (get scan skip limit)) \<le> limit
           \<and> (permutation scan \<longrightarrow> page_of le rows skip limit (fst (get scan skip limit))))
        \<and> (\<forall>n\<ge>page_count (length rows) limit.
             (\<forall>scan. permutation scan \<longrightarrow>
                whole_list le key rows
                  (pages_concat (\<lambda>skip. fst (get scan skip limit)) limit n))
             \<and> (\<forall>scans. (\<forall>skip. permutation (scans skip)) \<and> no_ties le rows \<longrightarrow>
                  whole_list le key rows
                    (pages_concat (\<lambda>skip. fst (get (scans skip) skip limit)) limit n))))"

text \<open>
  An update \<open>u\<close> took \<open>old\<close> to \<open>new\<close> and changed, of the fields a request can
  name, only fields it names; the identifier, the owner and the creation time stay.
  For an action, \<open>completed_at\<close> is also let change when the request completes an
  action that was not completed.
\<close>

definition contact_frame :: "ContactUpdate \<Rightarrow> Contact \<Rightarrow> Contact \<Rightarrow> bool" where
  "contact_frame u old new =
     (c_id new = c_id old \<and> c_created_at new = c_created_at old
      \<and> (cu_first_name u = Unset \<longrightarrow> c_first_name new = c_first_name old)
      \<and> (cu_last_name u = Unset \<longrightarrow> c_last_name new = c_last_name old)
      \<and> (cu_email u = Unset \<longrightarrow> c_email new = c_email old)
      \<and> (cu_phone u = Unset \<longrightarrow> c_phone new = c_phone old)
      \<and> (cu_company u = Unset \<longrightarrow> c_company new = c_company old)
      \<and> (cu_job_title u = Unset \<longrightarrow> c_job_title new = c_job_title old)
      \<and> (cu_status u = Unset \<longrightarrow> c_status new = c_status old)
      \<and> (cu_source u = Unset \<longrightarrow> c_source new = c_source old)
      \<and> (cu_owner_id u = Unset \<longrightarrow> c_owner_id new = c_owner_id old)
      \<and> (cu_tags u = Unset \<longrightarrow> c_tags new = c_tags old)
      \<and> (cu_notes u = Unset \<longrightarrow> c_notes new = c_notes old)
      \<and> (cu_next_action u = Unset \<longrightarrow> c_next_action new = c_next_action old))"

definition interaction_frame :: "InteractionUpdate \<Rightarrow> Interaction \<Rightarrow> Interaction \<Rightarrow> bool" where
  "interaction_frame u old new =
     (i_id new = i_id old \<and> i_contact_id new = i_contact_id old
      \<and> i_created_at new = i_created_at old
      \<and> (iu_type u = Unset \<longrightarrow> i_type new = i_type old)
      \<and> (iu_occurred_at u = Unset \<longrightarrow> i_occurred_at new = i_occurred_at old)
      \<and> (iu_summary u = Unset \<longrightarrow> i_summary new = i_summary old)
      \<and> (iu_outcome u = Unset \<longrightarrow> i_outcome new = i_outcome old)
      \<and> (iu_created_by u = Unset \<longrightarrow> i_created_by new = i_created_by old))"

definition proposal_frame :: "ProposalUpdate \<Rightarrow> Proposal \<Rightarrow> Proposal \<Rightarrow> bool" where
  "proposal_frame u old new =
     (p_id new = p_id old \<and> p_contact_id new = p_contact_id old
      \<and> p_created_at new = p_created_at old
      \<and> (pu_title u = Unset \<longrightarrow> p_title new = p_title old)
      \<and> (pu_description u = Unset \<longrightarrow> p_description new = p_description old)
      \<and> (pu_value u = Unset \<longrightarrow> p_value new = p_value old)
      \<and> (pu_status u = Unset \<longrightarrow> p_status new = p_status old)
      \<and> (pu_applied_at u = Unset \<longrightarrow> p_applied_at new = p_applied_at old)
      \<and> (pu_expires_at u = Unset \<longrightarrow> p_expires_at new = p_expires_at old))"

definition action_frame :: "ActionUpdate \<Rightarrow> Action \<Rightarrow> Action \<Rightarrow> bool" where
  "action_frame u old new =
     (a_id new = a_id old \<and> a_contact_id new = a_contact_id old
      \<and> a_created_at new = a_created_at old
      \<and> (au_title u = Unset \<longrightarrow> a_title new = a_title old)
      \<and> (au_description u = Unset \<longrightarrow> a_description new = a_description old)
      \<and> (au_status u = Unset \<longrightarrow> a_status new = a_status old)
      \<and> (au_priority u = Unset \<longrightarrow> a_priority new = a_priority old)
      \<and> (au_action_type u = Unset \<longrightarrow> a_action_type new = a_action_type old)
      \<and> (au_due_at u = Unset \<longrightarrow> a_due_at new = a_due_at old)
      \<and> (au_completed_at u = Unset
           \<and> \<not> (au_status u = Given (Some ActionStatus_completed) \<and> a_completed_at old = None)
         \<longrightarrow> a_completed_at new = a_completed_at old)
      \<and> (au_assigned_to u = Unset \<longrightarrow> a_assigned_to new = a_assigned_to old)
      \<and> (au_proposal_id u = Unset \<longrightarrow> a_proposal_id new = a_proposal_id old)
      \<and> (au_interaction_id u = Unset \<longrightarrow> a_interaction_id new = a_interaction_id old))"

text \<open>
  The statistics of proposals: a scope names no contact or an existing one; the
  proposals a scope selects, those of its contact when it names one; the sum of the
  values of proposals, a null value adding nothing.
\<close>

definition scope_exists :: "database \<Rightarrow> int option \<Rightarrow> bool" where
  "scope_exists db contact_id =
     (case contact_id of None \<Rightarrow> True | Some v \<Rightarrow> get_contact db v \<noteq> None)"

definition proposals_in_scope :: "database \<Rightarrow> int option \<Rightarrow> Proposal list" where
  "proposals_in_scope db contact_id =
     (case contact_id of
        None \<Rightarrow> proposals db
      | Some v \<Rightarrow> filter (\<lambda>p. p_contact_id p = v) (proposals db))"

definition value_sum :: "Proposal list \<Rightarrow> int" where
  "value_sum ps = sum_list (List.map_filter p_value ps)"

text \<open>What the database guarantees of its tables: primary keys and the unique index.\<close>

definition primary_keys :: "database \<Rightarrow> bool" where
  "primary_keys db =
     (distinct (map c_id (contacts db)) \<and> distinct (map i_id (interactions db))
      \<and> distinct (map p_id (proposals db)) \<and> distinct (map a_id (actions db)))"

definition unique_emails :: "database \<Rightarrow> bool" where
  "unique_emails db = distinct (List.map_filter c_email (contacts db))"

text \<open>The serial sequence has handed out every identifier in the table.\<close>

definition sequence_ahead :: "database \<Rightarrow> bool" where
  "sequence_ahead db = list_all (\<lambda>c. c_id c \<le> contacts_id_seq db) (contacts db)"

text \<open>The update request that names the email and nothing else.\<close>

definition only_email :: "string \<Rightarrow> ContactUpdate" where
  "only_email e =
     \<lparr>cu_first_name = Unset, cu_last_name = Unset, cu_email = Given (Some e),
      cu_phone = Unset, cu_company = Unset, cu_job_title = Unset, cu_status = Unset,
      cu_source = Unset, cu_owner_id = Unset, cu_tags = Unset, cu_notes = Unset,
      cu_next_action = Unset\<rparr>"

section \<open>A small database\<close>

definition contact_A :: Contact where
  "contact_A =
     \<lparr>c_id = 1, c_first_name = ''Alice'', c_last_name = ''Ames'',
      c_email = Some ''a@example.com'', c_phone = None, c_company = None,
      c_job_title = None, c_status = ContactStatus_lead, c_source = None,
      c_owner_id = None, c_tags = Some [''vip''], c_notes = None,
      c_next_action = None, c_created_at = 10, c_updated_at = 10\<rparr>"

definition contact_B :: Contact where
  "contact_B =
     \<lparr>c_id = 2, c_first_name = ''Bob'', c_last_name = ''Budd'',
      c_email = None, c_phone = None, c_company = Some ''Acme'',
      c_job_title = None, c_status = ContactStatus_client, c_source = None,
      c_owner_id = None, c_tags = Some [''vip'', ''tech''], c_notes = None,
      c_next_action = None, c_created_at = 20, c_updated_at = 20\<rparr>"

definition contact_C :: Contact where
  "contact_C =
     \<lparr>c_id = 3, c_first_name = ''Cy'', c_last_name = ''Cole'',
      c_email = Some ''c@example.com'', c_phone = None, c_company = None,
      c_job_title = None, c_status = ContactStatus_lead, c_source = None,
      c_owner_id = None, c_tags = None, c_notes = None,
      c_next_action = None, c_created_at = 30, c_updated_at = 30\<rparr>"

definition interaction_1 :: Interaction where
  "interaction_1 =
     \<lparr>i_id = 1, i_contact_id = 1, i_type = InteractionType_call, i_occurred_at = 11,
      i_summary = ''intro call'', i_outcome = None, i_created_by = None,
      i_created_at = 11, i_updated_at = 11\<rparr>"

definition interaction_2 :: Interaction where
  "interaction_2 =
     \<lparr>i_id = 2, i_contact_id = 1, i_type = InteractionType_email, i_occurred_at = 12,
      i_summary = ''follow up'', i_outcome = None, i_created_by = None,
      i_created_at = 12, i_updated_at = 12\<rparr>"

definition interaction_3 :: Interaction where
  "interaction_3 =
     \<lparr>i_id = 3, i_contact_id = 2, i_type = InteractionType_note, i_occurred_at = 21,
      i_summary = ''met at fair'', i_outcome = None, i_created_by = None,
      i_created_at = 21, i_updated_at = 21\<rparr>"

definition proposal_1 :: Proposal where
  "proposal_1 =
     \<lparr>p_id = 1, p_contact_id = 1, p_title = ''Audit'', p_description = None,
      p_value = None, p_status = ProposalStatus_submitted, p_applied_at = None,
      p_created_at = 13, p_updated_at = 13, p_expires_at = None\<rparr>"

definition proposal_2 :: Proposal where
  "proposal_2 =
     \<lparr>p_id = 2, p_contact_id = 2, p_title = ''Site'', p_description = None,
      p_value = Some 500000, p_status = ProposalStatus_draft, p_applied_at = None,
      p_created_at = 22, p_updated_at = 22, p_expires_at = None\<rparr>"

definition proposal_3 :: Proposal where
  "proposal_3 =
     \<lparr>p_id = 3, p_contact_id = 2, p_title = ''Shop'', p_description = None,
      p_value = Some 700000, p_status = ProposalStatus_draft, p_applied_at = None,
      p_created_at = 23, p_updated_at = 23, p_expires_at = None\<rparr>"

definition proposal_4 :: Proposal where
  "proposal_4 =
     \<lparr>p_id = 4, p_contact_id = 2, p_title = ''App'', p_description = None,
      p_value = Some 1500000, p_status = ProposalStatus_won, p_applied_at = None,
      p_created_at = 24, p_updated_at = 24, p_expires_at = None\<rparr>"

definition action_1 :: Action where
  "action_1 =
     \<lparr>a_id = 1, a_contact_id = 1, a_proposal_id = Some 1, a_interaction_id = None,
      a_title = ''Call back'', a_description = None, a_status = ActionStatus_pending,
      a_completed_at = None, a_created_at = 14, a_updated_at = 14, a_due_at = None,
      a_action_type = ActionType_call, a_assigned_to = None,
      a_priority = ActionPriority_high\<rparr>"

definition action_2 :: Action where
  "action_2 =
     \<lparr>a_id = 2, a_contact_id = 2, a_proposal_id = None, a_interaction_id = Some 3,
      a_title = ''Send quote'', a_description = None, a_status = ActionStatus_completed,
      a_completed_at = Some 26, a_created_at = 25, a_updated_at = 26, a_due_at = Some 40,
      a_action_type = ActionType_email, a_assigned_to = None,
      a_priority = ActionPriority_urgent\<rparr>"

definition action_3 :: Action where
  "action_3 =
     \<lparr>a_id = 3, a_contact_id = 2, a_proposal_id = Some 1, a_interaction_id = None,
      a_title = ''Plan demo'', a_description = None, a_status = ActionStatus_pending,
      a_completed_at = None, a_created_at = 27, a_updated_at = 27, a_due_at = Some 35,
      a_action_type = ActionType_meeting, a_assigned_to = None,
      a_priority = ActionPriority_high\<rparr>"

definition example_db :: database where
  "example_db =
     \<lparr>contacts = [contact_A, contact_B, contact_C],
      interactions = [interaction_1, interaction_2, interaction_3],
      proposals = [proposal_1, proposal_2, proposal_3, proposal_4],
      actions = [action_1, action_2, action_3],
      contacts_id_seq = 3\<rparr>"

text \<open>Update requests that name one field each.\<close>

definition interaction_update_summary :: InteractionUpdate where
  "interaction_update_summary =
     \<lparr>iu_type = Unset, iu_occurred_at = Unset, iu_summary = Given (Some ''rescheduled''),
      iu_outcome = Unset, iu_created_by = Unset\<rparr>"

definition proposal_update_won :: ProposalUpdate where
  "proposal_update_won =
     \<lparr>pu_title = Unset, pu_description = Unset, pu_value = Unset,
      pu_status = Given (Some ProposalStatus_won), pu_applied_at = Unset,
      pu_expires_at = Unset\<rparr>"

definition action_update_completed :: ActionUpdate where
  "action_update_completed =
     \<lparr>au_title = Unset, au_description = Unset,
      au_status = Given (Some ActionStatus_completed), au_priority = Unset,
      au_action_type = Unset, au_due_at = Unset, au_completed_at = Unset,
      au_assigned_to = Unset, au_proposal_id = Unset, au_interaction_id = Unset\<rparr>"

definition action_update_recompleted :: ActionUpdate where
  "action_update_recompleted =
     \<lparr>au_title = Unset, au_description = Unset,
      au_status = Given (Some ActionStatus_completed), au_priority = Unset,
      au_action_type = Unset, au_due_at = Unset, au_completed_at = Given (Some 99),
      au_assigned_to = Unset, au_proposal_id = Unset, au_interaction_id = Unset\<rparr>"

definition action_1_completed :: Action where
  "action_1_completed =
     action_1\<lparr>a_status := ActionStatus_completed, a_completed_at := Some 49,
       a_updated_at := 50\<rparr>"

definition contact_update_phone :: ContactUpdate where
  "contact_update_phone =
     \<lparr>cu_first_name = Unset, cu_last_name = Unset, cu_email = Unset,
      cu_phone = Given (Some ''555 0100''), cu_company = Unset, cu_job_title = Unset,
      cu_status = Unset, cu_source = Unset, cu_owner_id = Unset, cu_tags = Unset,
      cu_notes = Unset, cu_next_action = Unset\<rparr>"

definition contact_create_D :: ContactCreate where
  "contact_create_D =
     \<lparr>cc_first_name = ''Dee'', cc_last_name = ''Dunn'', cc_email = Some ''x@example.com'',
      cc_phone = None, cc_company = None, cc_job_title = None,
      cc_status = ContactStatus_lead, cc_source = None, cc_owner_id = None,
      cc_tags = [], cc_notes = None, cc_next_action = None\<rparr>"

definition contact_D :: Contact where
  "contact_D =
     \<lparr>c_id = 4, c_first_name = ''Dee'', c_last_name = ''Dunn'',
      c_email = Some ''x@example.com'', c_phone = None, c_company = None,
      c_job_title = None, c_status = ContactStatus_lead, c_source = None,
      c_owner_id = None, c_tags = Some [], c_notes = None,
      c_next_action = None, c_created_at = 50, c_updated_at = 50\<rparr>"

definition example_db_D :: database where
  "example_db_D =
     example_db\<lparr>contacts := [contact_A, contact_B, contact_C, contact_D],
       contacts_id_seq := 4\<rparr>"

text \<open>
  Two contacts created at the same time, one of them with a tag of 10 characters; and
  two proposals of one contact, a draft of 0.10 and a won one of 0.20.
\<close>

definition contact_E :: Contact where
  "contact_E =
     \<lparr>c_id = 5, c_first_name = ''Eve'', c_last_name = ''Eads'',
      c_email = None, c_phone = None, c_company = None,
      c_job_title = None, c_status = ContactStatus_lead, c_source = None,
      c_owner_id = None, c_tags = Some [''abcdefghij''], c_notes = None,
      c_next_action = None, c_created_at = 10, c_updated_at = 10\<rparr>"

definition proposal_5 :: Proposal where
  "proposal_5 =
     \<lparr>p_id = 5, p_contact_id = 1, p_title = ''Stamp'', p_description = None,
      p_value = Some 10, p_status = ProposalStatus_draft, p_applied_at = None,
      p_created_at = 15, p_updated_at = 15, p_expires_at = None\<rparr>"

definition proposal_6 :: Proposal where
  "proposal_6 =
     \<lparr>p_id = 6, p_contact_id = 1, p_title = ''Label'', p_description = None,
      p_value = Some 20, p_status = ProposalStatus_won, p_applied_at = None,
      p_created_at = 16, p_updated_at = 16, p_expires_at = None\<rparr>"

definition tied_db :: database where
  "tied_db =
     \<lparr>contacts = [contact_A, contact_E], interactions = [],
      proposals = [proposal_5, proposal_6], actions = [], contacts_id_seq = 5\<rparr>"

section \<open>Pagination of the list queries\<close>

lemmas example_defs =
  example_db_def contact_A_def contact_B_def contact_C_def
  interaction_1_def interaction_2_def interaction_3_def
  proposal_1_def proposal_2_def proposal_3_def proposal_4_def
  action_1_def action_2_def action_3_def

lemma mset_insert_by: "mset (insert_by le x ys) = add_mset x (mset ys)"
  by (induction ys) auto

lemma mset_order_by: "mset (order_by le xs) = mset xs"
  unfolding order_by_def by (induction xs) (auto simp: mset_insert_by)

lemma length_order_by: "length (order_by le xs) = length xs"
  using mset_order_by [of le xs] by (metis size_mset)

lemma set_order_by: "set (order_by le xs) = set xs"
  using mset_order_by [of le xs] by (metis set_mset_mset)

lemma set_insert_by: "set (insert_by le x ys) = insert x (set ys)"
  by (induction ys) auto

lemma sorted_wrt_insert_by:
  assumes total: "\<And>a b. le a b \<or> le b a"
    and trans: "\<And>a b c. le a b \<Longrightarrow> le b c \<Longrightarrow> le a c"
    and sorted: "sorted_wrt le ys"
  shows "sorted_wrt le (insert_by le x ys)"
  using sorted
proof (induction ys)
  case Nil
  show ?case by simp
next
  case (Cons y ys)
  show ?case
  proof (cases "le x y")
    case True
    with Cons.prems show ?thesis by (auto intro: trans [OF True])
  next
    case False
    then have "le y x" using total by blast
    with Cons False show ?thesis by (auto simp: set_insert_by)
  qed
qed

lemma sorted_wrt_order_by:
  assumes "\<And>a b. le a b \<or> le b a"
    and "\<And>a b c. le a b \<Longrightarrow> le b c \<Longrightarrow> le a c"
  shows "sorted_wrt le (order_by le xs)"
  unfolding order_by_def
  by (induction xs) (simp_all add: sorted_wrt_insert_by [OF assms])

text \<open>Every ordering of the rows by the key is the one that some scan leads to.\<close>

lemma order_by_sorted:
  assumes "sorted_wrt le xs"
  shows "order_by le xs = xs"
  using assms
proof (induction xs)
  case Nil
  show ?case by (simp add: order_by_def)
next
  case (Cons x xs)
  then have "order_by le (x # xs) = insert_by le x xs"
    by (simp add: order_by_def)
  also have "\<dots> = x # xs"
    using Cons.prems by (cases xs) simp_all
  finally show ?case .
qed

lemma every_ordering_read:
  assumes "mset ordered = mset rows" and "sorted_wrt le ordered"
  shows "\<exists>scan. permutation scan \<and> order_by le (scan rows) = ordered"
proof (intro exI conjI)
  show "permutation (\<lambda>xs. if mset xs = mset rows then ordered else xs)"
    using assms(1) by (simp add: permutation_def)
  show "order_by le (if mset rows = mset rows then ordered else rows) = ordered"
    using assms(2) by (simp add: order_by_sorted)
qed

text \<open>An ordering without ties leaves one way to sort.\<close>

lemma sorted_wrt_unique:
  assumes "sorted_wrt le xs" and "sorted_wrt le ys" and "mset xs = mset ys"
    and "no_ties le xs"
  shows "xs = ys"
  using assms
proof (induction xs arbitrary: ys)
  case Nil
  then show ?case by simp
next
  case (Cons x xs)
  from Cons.prems(3) obtain y ys' where ys: "ys = y # ys'"
    by (cases ys) auto
  have x_in: "x \<in> set ys"
    using Cons.prems(3) by (metis list.set_intros(1) mset_eq_setD)
  have y_in: "y \<in> set (x # xs)"
    using Cons.prems(3) ys by (metis list.set_intros(1) mset_eq_setD)
  have head: "x = y"
  proof (rule ccontr)
    assume neq: "x \<noteq> y"
    then have "x \<in> set ys'" using x_in ys by simp
    then have "le y x" using Cons.prems(2) ys by simp
    moreover from neq y_in have "y \<in> set xs" by auto
    then have "le x y" using Cons.prems(1) by simp
    ultimately have "x = y"
      using Cons.prems(4) y_in unfolding no_ties_def by (meson list.set_intros(1))
    with neq show False by simp
  qed
  have "xs = ys'"
  proof (rule Cons.IH)
    show "sorted_wrt le xs" using Cons.prems(1) by simp
    show "sorted_wrt le ys'" using Cons.prems(2) ys by simp
    show "mset xs = mset ys'" using Cons.prems(3) ys head by simp
    show "no_ties le xs" using Cons.prems(4) by (simp add: no_ties_def)
  qed
  with head ys show ?case by simp
qed

lemma order_by_scan:
  assumes "\<And>a b. le a b \<or> le b a"
    and "\<And>a b c. le a b \<Longrightarrow> le b c \<Longrightarrow> le a c"
    and "permutation scan" and "no_ties le rows"
  shows "order_by le (scan rows) = order_by le rows"
proof (rule sym, rule sorted_wrt_unique)
  show "sorted_wrt le (order_by le rows)" by (rule sorted_wrt_order_by [OF assms(1,2)])
  show "sorted_wrt le (order_by le (scan rows))" by (rule sorted_wrt_order_by [OF assms(1,2)])
  show "mset (order_by le rows) = mset (order_by le (scan rows))"
    using assms(3) by (simp add: mset_order_by permutation_def)
  show "no_ties le (order_by le rows)"
    using assms(4) by (simp add: no_ties_def set_order_by)
qed

lemma pages_concat_take:
  "pages_concat (\<lambda>skip. offset_limit skip limit xs) limit n = take (n * limit) xs"
proof (induction n)
  case 0
  show ?case by (simp add: pages_concat_def)
next
  case (Suc n)
  have "pages_concat (\<lambda>skip. offset_limit skip limit xs) limit (Suc n)
        = pages_concat (\<lambda>skip. offset_limit skip limit xs) limit n
          @ take limit (drop (n * limit) xs)"
    by (simp add: pages_concat_def offset_limit_def)
  also have "\<dots> = take (n * limit) xs @ take limit (drop (n * limit) xs)"
    by (simp only: Suc.IH)
  also have "\<dots> = take (n * limit + limit) xs"
    by (simp add: take_add)
  finally show ?case by (simp add: add.commute)
qed

lemma page_count_covers:
  assumes "1 \<le> limit" and "page_count rows limit \<le> n"
  shows "rows \<le> n * limit"
proof -
  have "rows \<le> page_count rows limit * limit"
  proof -
    have "(rows + limit - 1) mod limit \<le> limit - 1"
      using assms(1) by (metis One_nat_def Suc_pred le_simps(2) less_eq_Suc_le mod_less_divisor)
    moreover have "rows + limit - 1 = page_count rows limit * limit + (rows + limit - 1) mod limit"
      by (simp add: page_count_def)
    ultimately show ?thesis using assms(1) by linarith
  qed
  also have "\<dots> \<le> n * limit" using assms(2) by simp
  finally show ?thesis .
qed

lemma pages_concat_all:
  assumes "1 \<le> limit" and "page_count (length xs) limit \<le> n"
  shows "pages_concat (\<lambda>skip. offset_limit skip limit (order_by le xs)) limit n = order_by le xs"
  using page_count_covers [OF assms] by (simp add: pages_concat_take length_order_by)

lemma whole_list_order_by:
  assumes "\<And>a b. le a b \<or> le b a"
    and "\<And>a b c. le a b \<Longrightarrow> le b c \<Longrightarrow> le a c"
    and "mset xs = mset rows"
  shows "whole_list le key rows (order_by le xs)"
proof -
  have "mset (map key (order_by le xs)) = mset (map key rows)"
    using assms(3) by (simp add: mset_order_by)
  then have "distinct (map key (order_by le xs)) \<longleftrightarrow> distinct (map key rows)"
    by (rule mset_eq_imp_distinct_iff)
  then show ?thesis
    using assms(3) by (simp add: whole_list_def mset_order_by sorted_wrt_order_by [OF assms(1,2)])
qed

lemma paginates_order_by:
  assumes total: "\<And>a b. le a b \<or> le b a"
    and trans: "\<And>a b c. le a b \<Longrightarrow> le b c \<Longrightarrow> le a c"
  shows "paginates
           (\<lambda>scan skip limit. (offset_limit skip limit (order_by le (scan rows)), length rows))
           le key rows"
proof -
  have page: "page_of le rows skip limit (offset_limit skip limit (order_by le (scan rows)))"
    if "permutation scan" for scan :: "'a scan" and skip limit
  proof -
    have "mset (order_by le (scan rows)) = mset rows"
      using that by (simp add: mset_order_by permutation_def)
    moreover have "sorted_wrt le (order_by le (scan rows))"
      by (rule sorted_wrt_order_by [OF assms])
    ultimately show ?thesis
      unfolding page_of_def offset_limit_def by blast
  qed
  have same: "whole_list le key rows
                (pages_concat (\<lambda>skip. offset_limit skip limit (order_by le (scan rows))) limit n)"
    if "1 \<le> limit" and "page_count (length rows) limit \<le> n" and "permutation scan"
    for scan :: "'a scan" and limit n
  proof -
    have rows: "mset (scan rows) = mset rows"
      using that(3) by (simp add: permutation_def)
    then have "length (scan rows) = length rows"
      by (metis size_mset)
    then have "pages_concat (\<lambda>skip. offset_limit skip limit (order_by le (scan rows))) limit n
               = order_by le (scan rows)"
      using that(1,2) by (simp add: pages_concat_all)
    then show ?thesis
      by (simp add: whole_list_order_by [OF assms rows])
  qed
  have each: "whole_list le key rows
                (pages_concat
                   (\<lambda>skip. offset_limit skip limit (order_by le (scans skip rows))) limit n)"
    if "1 \<le> limit" and "page_count (length rows) limit \<le> n"
      and "\<forall>skip. permutation (scans skip)" and "no_ties le rows"
    for scans :: "nat \<Rightarrow> 'a scan" and limit n
  proof -
    have "order_by le (scans skip rows) = order_by le rows" for skip
      using that(3) by (simp add: order_by_scan [OF assms _ that(4)])
    then have "pages_concat
                 (\<lambda>skip. offset_limit skip limit (order_by le (scans skip rows))) limit n
               = order_by le rows"
      using that(1,2) by (simp add: pages_concat_all)
    then show ?thesis
      by (simp add: whole_list_order_by [OF assms refl])
  qed
  show ?thesis
    unfolding paginates_def
    by (simp add: page same each) (simp add: offset_limit_def)
qed

lemma created_at_desc_total: "created_at_desc a b \<or> created_at_desc b a"
  by (auto simp: created_at_desc_def)

lemma created_at_desc_trans:
  "created_at_desc a b \<Longrightarrow> created_at_desc b c \<Longrightarrow> created_at_desc a c"
  by (simp add: created_at_desc_def)

lemma occurred_at_desc_total: "occurred_at_desc a b \<or> occurred_at_desc b a"
  by (auto simp: occurred_at_desc_def)

lemma occurred_at_desc_trans:
  "occurred_at_desc a b \<Longrightarrow> occurred_at_desc b c \<Longrightarrow> occurred_at_desc a c"
  by (simp add: occurred_at_desc_def)

lemma proposal_created_at_desc_total:
  "proposal_created_at_desc a b \<or> proposal_created_at_desc b a"
  by (auto simp: proposal_created_at_desc_def)

lemma proposal_created_at_desc_trans:
  "proposal_created_at_desc a b \<Longrightarrow> proposal_created_at_desc b c
   \<Longrightarrow> proposal_created_at_desc a c"
  by (simp add: proposal_created_at_desc_def)

lemma asc_nulls_last_total: "asc_nulls_last x y \<or> asc_nulls_last y x"
  by (cases x; cases y) auto

lemma asc_nulls_last_trans:
  "asc_nulls_last x y \<Longrightarrow> asc_nulls_last y z \<Longrightarrow> asc_nulls_last x z"
  by (cases x; cases y; cases z) auto

lemma priority_desc_due_at_asc_total:
  "priority_desc_due_at_asc a b \<or> priority_desc_due_at_asc b a"
  using asc_nulls_last_total [of "a_due_at a" "a_due_at b"]
  by (auto simp: priority_desc_due_at_asc_def)

lemma priority_desc_due_at_asc_trans:
  assumes "priority_desc_due_at_asc a b" and "priority_desc_due_at_asc b c"
  shows "priority_desc_due_at_asc a c"
  using assms asc_nulls_last_trans [of "a_due_at a" "a_due_at b" "a_due_at c"]
  by (auto simp: priority_desc_due_at_asc_def)

lemma distinct_filter_by_id:
  "distinct (map f rows) \<Longrightarrow> distinct (map f (filter_by_id arg p rows))"
  by (simp add: filter_by_id_def distinct_map_filter split: option.splits)

lemma distinct_filter_if_given:
  "distinct (map f rows) \<Longrightarrow> distinct (map f (filter_if_given arg p rows))"
  by (simp add: filter_if_given_def distinct_map_filter split: option.splits)

lemma distinct_contacts_query:
  "distinct (map c_id (contacts db))
   \<Longrightarrow> distinct (map c_id (contacts_query db status search tags))"
  by (simp add: contacts_query_def Let_def distinct_filter_if_given distinct_map_filter
      split: option.splits)

lemma distinct_interactions_query:
  "distinct (map i_id (interactions db))
   \<Longrightarrow> distinct (map i_id (interactions_query db contact_id itype start_date end_date))"
  by (simp add: interactions_query_def Let_def distinct_filter_if_given distinct_filter_by_id)

lemma distinct_proposals_query:
  "distinct (map p_id (proposals db))
   \<Longrightarrow> distinct (map p_id (proposals_query db contact_id status min_value max_value))"
  by (simp add: proposals_query_def Let_def distinct_filter_if_given distinct_filter_by_id
      distinct_map_filter split: option.splits)

lemma distinct_actions_query:
  "distinct (map a_id (actions db))
   \<Longrightarrow> distinct (map a_id (actions_query db contact_id status priority action_type
                               assigned_to overdue_only now))"
  by (simp add: actions_query_def Let_def distinct_filter_if_given distinct_filter_by_id
      distinct_map_filter)

lemma get_contacts_eq:
  "get_contacts db scan skip limit status search tags
   = (offset_limit skip limit
        (order_by created_at_desc (scan (contacts_query db status search tags))),
      length (contacts_query db status search tags))"
  by (simp add: get_contacts_def Let_def)

lemma get_interactions_eq:
  "get_interactions db scan skip limit contact_id itype start_date end_date
   = (offset_limit skip limit
        (order_by occurred_at_desc
           (scan (interactions_query db contact_id itype start_date end_date))),
      length (interactions_query db contact_id itype start_date end_date))"
  by (simp add: get_interactions_def Let_def)

lemma get_proposals_eq:
  "get_proposals db scan skip limit contact_id status min_value max_value
   = (offset_limit skip limit
        (order_by proposal_created_at_desc
           (scan (proposals_query db contact_id status min_value max_value))),
      length (proposals_query db contact_id status min_value max_value))"
  by (simp add: get_proposals_def Let_def)

lemma get_actions_eq:
  "get_actions db scan skip limit contact_id status priority action_type assigned_to
     overdue_only now
   = (offset_limit skip limit
        (order_by priority_desc_due_at_asc
           (scan (actions_query db contact_id status priority action_type assigned_to
                    overdue_only now))),
      length (actions_query db contact_id status priority action_type assigned_to
                overdue_only now))"
  by (simp add: get_actions_def Let_def)

text \<open>
  C1, as amended. Each page is fetched by a statement of its own, which reads the rows
  that the ordering does not separate in an order of its own (its scan, a permutation
  of the rows). For each of the four list queries, every choice of filters and every
  page size \<open>limit \<ge> 1\<close>, the query paginates its filtered rows in its ordering:

  \<^item> the returned total is the number of rows of the filtered query, whatever \<open>skip\<close>,
    \<open>limit\<close> and the scan are;
  \<^item> a page has at most \<open>limit\<close> rows, and it holds the rows
    \<open>skip + 1, \<dots>, skip + limit\<close> of the filtered rows in one of their orderings by the
    query's key;
  \<^item> the pages at \<open>skip = 0, limit, 2 * limit, \<dots>\<close>, once there are enough of them to
    hold that many rows, concatenate to the filtered rows in the query's order, each row
    exactly as often as the filtered query has it (none repeated, none left out, and no
    identifier twice when the filtered rows have none twice), provided that every page
    is read by the same scan, or that the ordering has no ties on the filtered rows
    (then each page may be read by a scan of its own).

  In a table with a primary key the filtered rows have no identifier twice.
\<close>

theorem list_queries_paginate:
  "paginates (\<lambda>scan skip limit. get_contacts db scan skip limit status search tags)
     created_at_desc c_id (contacts_query db status search tags)
   \<and> paginates
       (\<lambda>scan skip limit. get_interactions db scan skip limit contact_id itype start_date end_date)
       occurred_at_desc i_id (interactions_query db contact_id itype start_date end_date)
   \<and> paginates
       (\<lambda>scan skip limit.
          get_proposals db scan skip limit contact_id pstatus min_value max_value)
       proposal_created_at_desc p_id
       (proposals_query db contact_id pstatus min_value max_value)
   \<and> paginates
       (\<lambda>scan skip limit.
          get_actions db scan skip limit contact_id astatus priority action_type assigned_to
            overdue_only now)
       priority_desc_due_at_asc a_id
       (actions_query db contact_id astatus priority action_type assigned_to overdue_only now)
   \<and> (primary_keys db \<longrightarrow>
        distinct (map c_id (contacts_query db status search tags))
        \<and> distinct (map i_id (interactions_query db contact_id itype start_date end_date))
        \<and> distinct (map p_id (proposals_query db contact_id pstatus min_value max_value))
        \<and> distinct (map a_id (actions_query db contact_id astatus priority action_type
                                 assigned_to overdue_only now)))"
proof (intro conjI impI)
  show "paginates (\<lambda>scan skip limit. get_contacts db scan skip limit status search tags)
          created_at_desc c_id (contacts_query db status search tags)"
    unfolding get_contacts_eq
    by (rule paginates_order_by)
      (rule created_at_desc_total, erule created_at_desc_trans, assumption)
  show "paginates
          (\<lambda>scan skip limit.
             get_interactions db scan skip limit contact_id itype start_date end_date)
          occurred_at_desc i_id (interactions_query db contact_id itype start_date end_date)"
    unfolding get_interactions_eq
    by (rule paginates_order_by)
      (rule occurred_at_desc_total, erule occurred_at_desc_trans, assumption)
  show "paginates
          (\<lambda>scan skip limit.
             get_proposals db scan skip limit contact_id pstatus min_value max_value)
          proposal_created_at_desc p_id
          (proposals_query db contact_id pstatus min_value max_value)"
    unfolding get_proposals_eq
    by (rule paginates_order_by)
      (rule proposal_created_at_desc_total, erule proposal_created_at_desc_trans, assumption)
  show "paginates
          (\<lambda>scan skip limit.
             get_actions db scan skip limit contact_id astatus priority action_type assigned_to
               overdue_only now)
          priority_desc_due_at_asc a_id
          (actions_query db contact_id astatus priority action_type assigned_to overdue_only
             now)"
    unfolding get_actions_eq
    by (rule paginates_order_by)
      (rule priority_desc_due_at_asc_total, erule priority_desc_due_at_asc_trans, assumption)
next
  assume "primary_keys db"
  then show "distinct (map c_id (contacts_query db status search tags))"
    by (simp add: primary_keys_def distinct_contacts_query)
next
  assume "primary_keys db"
  then show "distinct (map i_id (interactions_query db contact_id itype start_date end_date))"
    by (simp add: primary_keys_def distinct_interactions_query)
next
  assume "primary_keys db"
  then show "distinct (map p_id (proposals_query db contact_id pstatus min_value max_value))"
    by (simp add: primary_keys_def distinct_proposals_query)
next
  assume "primary_keys db"
  then show "distinct (map a_id (actions_query db contact_id astatus priority action_type
                                   assigned_to overdue_only now))"
    by (simp add: primary_keys_def distinct_actions_query)
qed

lemma example_contacts_query:
  "contacts_query example_db None None None = [contact_A, contact_B, contact_C]"
  by (simp add: contacts_query_def filter_if_given_def example_db_def)

lemma example_contacts_no_ties: "no_ties created_at_desc [contact_A, contact_B, contact_C]"
  by (simp add: no_ties_def created_at_desc_def contact_A_def contact_B_def contact_C_def)

lemma permutation_id_rev: "permutation id" "permutation rev"
  by (simp_all add: permutation_def)

theorem list_queries_paginate_witness:
  "snd (get_contacts example_db rev 2 2 None None None) = 3
   \<and> length (fst (get_contacts example_db rev 2 2 None None None)) \<le> 2
   \<and> mset (pages_concat
        (\<lambda>skip. fst (get_contacts example_db (if skip = 0 then id else rev) skip 2 None None None))
        2 2)
     = mset [contact_A, contact_B, contact_C]
   \<and> sorted_wrt created_at_desc (pages_concat
        (\<lambda>skip. fst (get_contacts example_db (if skip = 0 then id else rev) skip 2 None None None))
        2 2)
   \<and> distinct (map c_id (pages_concat
        (\<lambda>skip. fst (get_contacts example_db (if skip = 0 then id else rev) skip 2 None None None))
        2 2))
   \<and> mset (pages_concat (\<lambda>skip. fst (get_contacts example_db rev skip 2 None None None)) 2 2)
     = mset [contact_A, contact_B, contact_C]"
proof -
  have limit: "(1::nat) \<le> 2" by simp
  have pages: "page_count (length [contact_A, contact_B, contact_C]) 2 \<le> 2"
    by (simp add: page_count_def)
  have scans: "\<forall>skip::nat. permutation (if skip = 0 then id else (rev :: Contact scan))"
    by (simp add: permutation_id_rev)
  have keys: "primary_keys example_db"
    by (simp add: primary_keys_def example_defs)
  note queries = list_queries_paginate [of example_db None None None
      None None None None None None None None None None None False 0]
  note paginate = queries [THEN conjunct1, unfolded paginates_def example_contacts_query,
      rule_format, OF limit]
  note page = paginate [THEN conjunct1, rule_format, of rev 2]
  note whole = paginate [THEN conjunct2, rule_format, OF pages, THEN conjunct2, rule_format,
      OF conjI [OF scans example_contacts_no_ties]]
  note same = paginate [THEN conjunct2, rule_format, OF pages, THEN conjunct1, rule_format,
      OF permutation_id_rev(2)]
  note once = queries [THEN conjunct2, THEN conjunct2, THEN conjunct2, THEN conjunct2,
      rule_format, OF keys, THEN conjunct1, unfolded example_contacts_query]
  from page have "snd (get_contacts example_db rev 2 2 None None None)
        = length [contact_A, contact_B, contact_C]
      \<and> length (fst (get_contacts example_db rev 2 2 None None None)) \<le> 2"
    by simp
  with whole same once show ?thesis
    by (simp add: whole_list_def)
qed

text \<open>
  C1 as it was stated does not hold. The ordering of the contact list, \<open>created_at\<close>
  descending, does not separate two contacts created at the same time. With a page
  size of 1, the statement of the first page may read the two in table order and the
  statement of the second page in the reverse order: both pages then hold the same
  contact, and the other contact is on no page, while the total is 2.
\<close>

theorem pages_repeat_and_omit_counterexample:
  "contacts_query tied_db None None None = [contact_A, contact_E]
   \<and> c_created_at contact_A = c_created_at contact_E
   \<and> contact_A \<noteq> contact_E
   \<and> permutation (id :: Contact scan) \<and> permutation (rev :: Contact scan)
   \<and> get_contacts tied_db id 0 1 None None None = ([contact_A], 2)
   \<and> get_contacts tied_db rev 1 1 None None None = ([contact_A], 2)
   \<and> pages_concat
       (\<lambda>skip. fst (get_contacts tied_db (if skip = 0 then id else rev) skip 1 None None None))
       1 2
     = [contact_A, contact_A]"
proof -
  have query: "contacts_query tied_db None None None = [contact_A, contact_E]"
    by (simp add: contacts_query_def filter_if_given_def tied_db_def)
  have first: "get_contacts tied_db id 0 1 None None None = ([contact_A], 2)"
    by (simp add: get_contacts_eq query offset_limit_def order_by_def created_at_desc_def
        contact_A_def contact_E_def)
  have second: "get_contacts tied_db rev 1 1 None None None = ([contact_A], 2)"
    by (simp add: get_contacts_eq query offset_limit_def order_by_def created_at_desc_def
        contact_A_def contact_E_def)
  have "pages_concat
          (\<lambda>skip. fst (get_contacts tied_db (if skip = 0 then id else rev) skip 1
                         None None None)) 1 2
        = fst (get_contacts tied_db id 0 1 None None None)
          @ fst (get_contacts tied_db rev 1 1 None None None)"
    by (simp add: pages_concat_def numeral_2_eq_2)
  then show ?thesis
    using query first second
    by (simp add: permutation_id_rev) (simp add: contact_A_def contact_E_def)
qed

section \<open>The tag filter\<close>








section \<open>The order of the action list\<close>

lemma priority_rank_inj: "priority_rank p = priority_rank q \<longleftrightarrow> p = q"
  by (cases p; cases q) simp_all

lemma get_actions_sorted:
  "sorted_wrt priority_desc_due_at_asc
     (fst (get_actions db scan skip limit contact_id status priority action_type assigned_to
             overdue_only now))"
proof -
  have "sorted_wrt priority_desc_due_at_asc (order_by priority_desc_due_at_asc xs)" for xs
    by (rule sorted_wrt_order_by)
      (rule priority_desc_due_at_asc_total, erule priority_desc_due_at_asc_trans, assumption)
  then show ?thesis
    by (simp add: get_actions_def Let_def offset_limit_def sorted_wrt_take sorted_wrt_drop)
qed

text \<open>
  C6. Whatever the actions and the filters, and in whatever order the statement reads
  the rows, the page that the action list query returns is ordered by priority
  descending in the order urgent > high > medium > low: of two rows of the page the
  later one never has the higher priority, and when their priorities are equal their
  \<open>due_at\<close> ascend, a null \<open>due_at\<close> coming after every non-null one.
\<close>

theorem actions_page_order:
  fixes page :: "Action list"
  assumes "page = fst (get_actions db scan skip limit contact_id status priority action_type
                         assigned_to overdue_only now)"
    and "i < j" and "j < length page"
  shows
    "priority_rank ActionPriority_low < priority_rank ActionPriority_medium
     \<and> priority_rank ActionPriority_medium < priority_rank ActionPriority_high
     \<and> priority_rank ActionPriority_high < priority_rank ActionPriority_urgent
     \<and> priority_rank (a_priority (page ! j)) \<le> priority_rank (a_priority (page ! i))
     \<and> (a_priority (page ! i) = a_priority (page ! j) \<longrightarrow>
          (case a_due_at (page ! i) of
             None \<Rightarrow> a_due_at (page ! j) = None
           | Some x \<Rightarrow> (case a_due_at (page ! j) of None \<Rightarrow> True | Some y \<Rightarrow> x \<le> y)))"
proof -
  have "sorted_wrt priority_desc_due_at_asc page"
    unfolding assms(1) by (rule get_actions_sorted)
  then have le: "priority_desc_due_at_asc (page ! i) (page ! j)"
    using assms(2,3) by (simp add: sorted_wrt_iff_nth_less)
  then have "priority_rank (a_priority (page ! j)) \<le> priority_rank (a_priority (page ! i))"
    by (auto simp: priority_desc_due_at_asc_def)
  moreover have "asc_nulls_last (a_due_at (page ! i)) (a_due_at (page ! j))"
    if "a_priority (page ! i) = a_priority (page ! j)"
    using le that by (simp add: priority_desc_due_at_asc_def)
  moreover have "asc_nulls_last x y
      = (case x of None \<Rightarrow> y = None | Some a \<Rightarrow> (case y of None \<Rightarrow> True | Some b \<Rightarrow> a \<le> b))"
    for x y
    by (cases x; cases y) simp_all
  ultimately show ?thesis by simp
qed

lemma example_actions_page:
  "fst (get_actions example_db id 0 10 None None None None None False 0)
   = [action_2, action_3, action_1]"
  by (simp add: get_actions_def actions_query_def filter_by_id_def filter_if_given_def
      offset_limit_def order_by_def priority_desc_due_at_asc_def example_db_def
      action_1_def action_2_def action_3_def)

theorem actions_page_order_witness:
  "fst (get_actions example_db id 0 10 None None None None None False 0)
     = [action_2, action_3, action_1]
   \<and> a_priority action_2 = ActionPriority_urgent \<and> a_priority action_3 = ActionPriority_high
   \<and> a_priority action_1 = ActionPriority_high
   \<and> a_due_at action_3 = Some 35 \<and> a_due_at action_1 = None
   \<and> priority_rank (a_priority action_3) \<le> priority_rank (a_priority action_2)
   \<and> priority_rank (a_priority action_1) \<le> priority_rank (a_priority action_3)"
proof -
  have "priority_rank (a_priority ([action_2, action_3, action_1] ! 1))
        \<le> priority_rank (a_priority ([action_2, action_3, action_1] ! 0))"
    using actions_page_order [of "[action_2, action_3, action_1]" example_db id 0 10
        None None None None None False 0 0 1]
    by (simp add: example_actions_page)
  moreover have "priority_rank (a_priority ([action_2, action_3, action_1] ! 2))
        \<le> priority_rank (a_priority ([action_2, action_3, action_1] ! 1))"
    using actions_page_order [of "[action_2, action_3, action_1]" example_db id 0 10
        None None None None None False 0 1 2]
    by (simp add: example_actions_page)
  ultimately show ?thesis
    by (simp add: example_actions_page) (simp add: action_1_def action_2_def action_3_def)
qed

section \<open>Cascading deletes\<close>

lemma find_filter_neq: "find (\<lambda>r. f r = k) (filter (\<lambda>r. f r \<noteq> k) rows) = None"
  by (simp add: find_None_iff)

text \<open>
  C4. Deleting an existing contact removes it and every interaction, proposal and
  action whose \<open>contact_id\<close> is its id. Deleting an existing proposal removes it and
  exactly the actions whose \<open>proposal_id\<close> is its id, and leaves the contacts and the
  interactions as they were; deleting an existing interaction removes it and exactly
  the actions whose \<open>interaction_id\<close> is its id, and leaves the contacts and the
  proposals as they were.
\<close>

theorem delete_cascades:
  "(get_contact db contact_id \<noteq> None \<longrightarrow>
      fst (delete_contact db contact_id)
      \<and> get_contact (snd (delete_contact db contact_id)) contact_id = None
      \<and> interactions (snd (delete_contact db contact_id))
          = filter (\<lambda>i. i_contact_id i \<noteq> contact_id) (interactions db)
      \<and> proposals (snd (delete_contact db contact_id))
          = filter (\<lambda>p. p_contact_id p \<noteq> contact_id) (proposals db)
      \<and> set (actions (snd (delete_contact db contact_id))) \<subseteq> set (actions db)
      \<and> (\<forall>a \<in> set (actions (snd (delete_contact db contact_id))). a_contact_id a \<noteq> contact_id))
   \<and> (get_proposal db proposal_id \<noteq> None \<longrightarrow>
      fst (delete_proposal db proposal_id)
      \<and> get_proposal (snd (delete_proposal db proposal_id)) proposal_id = None
      \<and> actions (snd (delete_proposal db proposal_id))
          = filter (\<lambda>a. a_proposal_id a \<noteq> Some proposal_id) (actions db)
      \<and> contacts (snd (delete_proposal db proposal_id)) = contacts db
      \<and> interactions (snd (delete_proposal db proposal_id)) = interactions db)
   \<and> (get_interaction db interaction_id \<noteq> None \<longrightarrow>
      fst (delete_interaction db interaction_id)
      \<and> get_interaction (snd (delete_interaction db interaction_id)) interaction_id = None
      \<and> actions (snd (delete_interaction db interaction_id))
          = filter (\<lambda>a. a_interaction_id a \<noteq> Some interaction_id) (actions db)
      \<and> contacts (snd (delete_interaction db interaction_id)) = contacts db
      \<and> proposals (snd (delete_interaction db interaction_id)) = proposals db)"
proof (intro conjI impI)
  assume c: "get_contact db contact_id \<noteq> None"
  then obtain row where row: "get_contact db contact_id = Some row" by blast
  show "fst (delete_contact db contact_id)"
    by (simp add: delete_contact_def row)
  have "contacts (snd (delete_contact db contact_id))
        = filter (\<lambda>c. c_id c \<noteq> contact_id) (contacts db)"
    by (simp add: delete_contact_def row Let_def)
  then show "get_contact (snd (delete_contact db contact_id)) contact_id = None"
    by (simp add: get_contact_def find_filter_neq)
  show "interactions (snd (delete_contact db contact_id))
          = filter (\<lambda>i. i_contact_id i \<noteq> contact_id) (interactions db)"
    by (simp add: delete_contact_def row Let_def)
  show "proposals (snd (delete_contact db contact_id))
          = filter (\<lambda>p. p_contact_id p \<noteq> contact_id) (proposals db)"
    by (simp add: delete_contact_def row Let_def)
  show "set (actions (snd (delete_contact db contact_id))) \<subseteq> set (actions db)"
    by (simp add: delete_contact_def row Let_def)
  show "\<forall>a \<in> set (actions (snd (delete_contact db contact_id))). a_contact_id a \<noteq> contact_id"
    by (simp add: delete_contact_def row Let_def)
next
  assume "get_proposal db proposal_id \<noteq> None"
  then obtain row where row: "get_proposal db proposal_id = Some row" by blast
  show "fst (delete_proposal db proposal_id)"
    by (simp add: delete_proposal_def row)
  have "proposals (snd (delete_proposal db proposal_id))
        = filter (\<lambda>p. p_id p \<noteq> proposal_id) (proposals db)"
    by (simp add: delete_proposal_def row)
  then show "get_proposal (snd (delete_proposal db proposal_id)) proposal_id = None"
    by (simp add: get_proposal_def find_filter_neq)
  show "actions (snd (delete_proposal db proposal_id))
          = filter (\<lambda>a. a_proposal_id a \<noteq> Some proposal_id) (actions db)"
    by (simp add: delete_proposal_def row)
  show "contacts (snd (delete_proposal db proposal_id)) = contacts db"
    by (simp add: delete_proposal_def row)
  show "interactions (snd (delete_proposal db proposal_id)) = interactions db"
    by (simp add: delete_proposal_def row)
next
  assume "get_interaction db interaction_id \<noteq> None"
  then obtain row where row: "get_interaction db interaction_id = Some row" by blast
  show "fst (delete_interaction db interaction_id)"
    by (simp add: delete_interaction_def row)
  have "interactions (snd (delete_interaction db interaction_id))
        = filter (\<lambda>i. i_id i \<noteq> interaction_id) (interactions db)"
    by (simp add: delete_interaction_def row)
  then show "get_interaction (snd (delete_interaction db interaction_id)) interaction_id = None"
    by (simp add: get_interaction_def find_filter_neq)
  show "actions (snd (delete_interaction db interaction_id))
          = filter (\<lambda>a. a_interaction_id a \<noteq> Some interaction_id) (actions db)"
    by (simp add: delete_interaction_def row)
  show "contacts (snd (delete_interaction db interaction_id)) = contacts db"
    by (simp add: delete_interaction_def row)
  show "proposals (snd (delete_interaction db interaction_id)) = proposals db"
    by (simp add: delete_interaction_def row)
qed

lemma example_get_contact_1: "get_contact example_db 1 = Some contact_A"
  by (simp add: get_contact_def example_db_def contact_A_def)

lemma example_get_proposal_1: "get_proposal example_db 1 = Some proposal_1"
  by (simp add: get_proposal_def example_db_def proposal_1_def)

lemma example_get_interaction_3: "get_interaction example_db 3 = Some interaction_3"
  by (simp add: get_interaction_def example_db_def interaction_1_def interaction_2_def
      interaction_3_def)

lemma example_delete_contact_1:
  "delete_contact example_db 1
   = (True, example_db\<lparr>contacts := [contact_B, contact_C], interactions := [interaction_3],
        proposals := [proposal_2, proposal_3, proposal_4], actions := [action_2]\<rparr>)"
  by (simp add: delete_contact_def example_get_contact_1 Let_def)
    (simp add: example_defs)

theorem delete_cascades_witness:
  "map i_contact_id (interactions example_db) = [1, 1, 2]
   \<and> map p_contact_id (proposals example_db) = [1, 2, 2, 2]
   \<and> map a_contact_id (actions example_db) = [1, 2, 2]
   \<and> map a_proposal_id (actions example_db) = [Some 1, None, Some 1]
   \<and> fst (delete_contact example_db 1)
   \<and> contacts (snd (delete_contact example_db 1)) = [contact_B, contact_C]
   \<and> interactions (snd (delete_contact example_db 1)) = [interaction_3]
   \<and> proposals (snd (delete_contact example_db 1)) = [proposal_2, proposal_3, proposal_4]
   \<and> actions (snd (delete_contact example_db 1)) = [action_2]
   \<and> fst (delete_proposal example_db 1)
   \<and> actions (snd (delete_proposal example_db 1)) = [action_2]
   \<and> contacts (snd (delete_proposal example_db 1)) = contacts example_db
   \<and> interactions (snd (delete_proposal example_db 1)) = interactions example_db
   \<and> actions (snd (delete_interaction example_db 3)) = [action_1, action_3]
   \<and> proposals (snd (delete_interaction example_db 3)) = proposals example_db"
proof -
  note cascades = delete_cascades [of example_db 1 1 3]
  have c: "get_contact example_db 1 \<noteq> None" by (simp add: example_get_contact_1)
  have p: "get_proposal example_db 1 \<noteq> None" by (simp add: example_get_proposal_1)
  have i: "get_interaction example_db 3 \<noteq> None" by (simp add: example_get_interaction_3)
  have "fst (delete_contact example_db 1)"
    and "interactions (snd (delete_contact example_db 1))
          = filter (\<lambda>i. i_contact_id i \<noteq> 1) (interactions example_db)"
    and "proposals (snd (delete_contact example_db 1))
          = filter (\<lambda>p. p_contact_id p \<noteq> 1) (proposals example_db)"
    using cascades c by simp_all
  moreover have "fst (delete_proposal example_db 1)"
    and "actions (snd (delete_proposal example_db 1))
          = filter (\<lambda>a. a_proposal_id a \<noteq> Some 1) (actions example_db)"
    and "contacts (snd (delete_proposal example_db 1)) = contacts example_db"
    and "interactions (snd (delete_proposal example_db 1)) = interactions example_db"
    using cascades p by simp_all
  moreover have "actions (snd (delete_interaction example_db 3))
          = filter (\<lambda>a. a_interaction_id a \<noteq> Some 3) (actions example_db)"
    and "proposals (snd (delete_interaction example_db 3)) = proposals example_db"
    using cascades i by simp_all
  ultimately show ?thesis
    by (simp add: example_delete_contact_1) (simp add: example_defs)
qed

section \<open>Updates and ownership\<close>

lemma find_key_unique:
  assumes "distinct (map key rows)" and "find (\<lambda>r. key r = k) rows = Some old"
    and "r \<in> set rows" and "key r = k"
  shows "r = old"
proof -
  from assms(2) have "old \<in> set rows" and "key old = k"
    by (auto simp: find_Some_iff)
  moreover from assms(1) have "inj_on key (set rows)"
    by (simp add: distinct_map)
  ultimately show ?thesis using assms(3,4) by (auto dest: inj_onD)
qed

lemma map_replace_by_key:
  assumes "distinct (map key rows)" and "find (\<lambda>r. key r = k) rows = Some old"
    and "g new = g old"
  shows "map g (map (\<lambda>r. if key r = k then new else r) rows) = map g rows"
  using find_key_unique [OF assms(1,2)] assms(3) by (auto simp: map_eq_conv)

lemma interaction_setattrs_keeps:
  "i_id (interaction_setattrs i u) = i_id i"
  "i_contact_id (interaction_setattrs i u) = i_contact_id i"
  "i_created_at (interaction_setattrs i u) = i_created_at i"
  "i_updated_at (interaction_setattrs i u) = i_updated_at i"
  by (simp_all add: interaction_setattrs_def)

lemma proposal_setattrs_keeps:
  "p_id (proposal_setattrs p u) = p_id p"
  "p_contact_id (proposal_setattrs p u) = p_contact_id p"
  "p_created_at (proposal_setattrs p u) = p_created_at p"
  "p_updated_at (proposal_setattrs p u) = p_updated_at p"
  by (simp_all add: proposal_setattrs_def)

lemma action_setattrs_keeps:
  "a_id (action_setattrs a u) = a_id a"
  "a_contact_id (action_setattrs a u) = a_contact_id a"
  "a_created_at (action_setattrs a u) = a_created_at a"
  "a_updated_at (action_setattrs a u) = a_updated_at a"
  by (simp_all add: action_setattrs_def)

lemma update_interaction_outcome:
  assumes "get_interaction db interaction_id = Some old"
  shows "update_interaction db interaction_id u db_now = (Inl IntegrityError, db)
     \<or> (update_interaction db interaction_id u db_now = (Inr (Some old), db)
         \<and> interaction_setattrs old u = old)
     \<or> update_interaction db interaction_id u db_now
        = (Inr (Some ((interaction_setattrs old u)\<lparr>i_updated_at := db_now\<rparr>)),
           db\<lparr>interactions :=
                map (\<lambda>r. if i_id r = interaction_id
                         then (interaction_setattrs old u)\<lparr>i_updated_at := db_now\<rparr> else r)
                  (interactions db)\<rparr>)"
  by (simp add: update_interaction_def assms Let_def)

lemma update_proposal_outcome:
  assumes "get_proposal db proposal_id = Some old"
  shows "update_proposal db proposal_id u db_now = (Inl IntegrityError, db)
     \<or> (update_proposal db proposal_id u db_now = (Inr (Some old), db)
         \<and> proposal_setattrs old u = old)
     \<or> update_proposal db proposal_id u db_now
        = (Inr (Some ((proposal_setattrs old u)\<lparr>p_updated_at := db_now\<rparr>)),
           db\<lparr>proposals :=
                map (\<lambda>r. if p_id r = proposal_id
                         then (proposal_setattrs old u)\<lparr>p_updated_at := db_now\<rparr> else r)
                  (proposals db)\<rparr>)"
  by (simp add: update_proposal_def assms Let_def)

lemma update_action_outcome:
  assumes "get_action db action_id = Some old"
  shows "update_action db action_id u now db_now = (Inl IntegrityError, db)
     \<or> (update_action db action_id u now db_now = (Inr (Some old), db)
         \<and> action_setattrs old (stamp_completed_at old u now) = old)
     \<or> update_action db action_id u now db_now
        = (Inr (Some ((action_setattrs old (stamp_completed_at old u now))
                        \<lparr>a_updated_at := db_now\<rparr>)),
           db\<lparr>actions :=
                map (\<lambda>r. if a_id r = action_id
                         then (action_setattrs old (stamp_completed_at old u now))
                                \<lparr>a_updated_at := db_now\<rparr>
                         else r)
                  (actions db)\<rparr>)"
  by (simp add: update_action_def assms Let_def)

lemma update_interaction_ownership:
  assumes "distinct (map i_id (interactions db))"
  shows "map (\<lambda>i. (i_id i, i_contact_id i))
           (interactions (snd (update_interaction db interaction_id u db_now)))
         = map (\<lambda>i. (i_id i, i_contact_id i)) (interactions db)"
proof (cases "get_interaction db interaction_id")
  case None
  then show ?thesis by (simp add: update_interaction_def)
next
  case (Some old)
  then have found: "find (\<lambda>r. i_id r = interaction_id) (interactions db) = Some old"
    by (simp add: get_interaction_def)
  have "map (\<lambda>i. (i_id i, i_contact_id i))
          (map (\<lambda>r. if i_id r = interaction_id
                    then (interaction_setattrs old u)\<lparr>i_updated_at := db_now\<rparr> else r)
             (interactions db))
        = map (\<lambda>i. (i_id i, i_contact_id i)) (interactions db)"
    by (rule map_replace_by_key [OF assms found]) (simp add: interaction_setattrs_keeps)
  with update_interaction_outcome [OF Some, of u db_now] show ?thesis
    by (elim disjE) simp_all
qed

lemma update_proposal_ownership:
  assumes "distinct (map p_id (proposals db))"
  shows "map (\<lambda>p. (p_id p, p_contact_id p))
           (proposals (snd (update_proposal db proposal_id u db_now)))
         = map (\<lambda>p. (p_id p, p_contact_id p)) (proposals db)"
proof (cases "get_proposal db proposal_id")
  case None
  then show ?thesis by (simp add: update_proposal_def)
next
  case (Some old)
  then have found: "find (\<lambda>r. p_id r = proposal_id) (proposals db) = Some old"
    by (simp add: get_proposal_def)
  have "map (\<lambda>p. (p_id p, p_contact_id p))
          (map (\<lambda>r. if p_id r = proposal_id
                    then (proposal_setattrs old u)\<lparr>p_updated_at := db_now\<rparr> else r)
             (proposals db))
        = map (\<lambda>p. (p_id p, p_contact_id p)) (proposals db)"
    by (rule map_replace_by_key [OF assms found]) (simp add: proposal_setattrs_keeps)
  with update_proposal_outcome [OF Some, of u db_now] show ?thesis
    by (elim disjE) simp_all
qed

lemma update_action_ownership:
  assumes "distinct (map a_id (actions db))"
  shows "map (\<lambda>a. (a_id a, a_contact_id a))
           (actions (snd (update_action db action_id u now db_now)))
         = map (\<lambda>a. (a_id a, a_contact_id a)) (actions db)"
proof (cases "get_action db action_id")
  case None
  then show ?thesis by (simp add: update_action_def)
next
  case (Some old)
  then have found: "find (\<lambda>r. a_id r = action_id) (actions db) = Some old"
    by (simp add: get_action_def)
  have "map (\<lambda>a. (a_id a, a_contact_id a))
          (map (\<lambda>r. if a_id r = action_id
                    then (action_setattrs old (stamp_completed_at old u now))
                           \<lparr>a_updated_at := db_now\<rparr>
                    else r)
             (actions db))
        = map (\<lambda>a. (a_id a, a_contact_id a)) (actions db)"
    by (rule map_replace_by_key [OF assms found]) (simp add: action_setattrs_keeps)
  with update_action_outcome [OF Some, of u now db_now] show ?thesis
    by (elim disjE) simp_all
qed

lemma update_interaction_returns:
  assumes "get_interaction db interaction_id = Some old"
    and "fst (update_interaction db interaction_id u db_now) = Inr (Some new)"
  shows "i_contact_id new = i_contact_id old"
  using update_interaction_outcome [OF assms(1), of u db_now] assms(2)
  by (elim disjE) (auto simp: interaction_setattrs_keeps)

lemma update_proposal_returns:
  assumes "get_proposal db proposal_id = Some old"
    and "fst (update_proposal db proposal_id u db_now) = Inr (Some new)"
  shows "p_contact_id new = p_contact_id old"
  using update_proposal_outcome [OF assms(1), of u db_now] assms(2)
  by (elim disjE) (auto simp: proposal_setattrs_keeps)

lemma update_action_returns:
  assumes "get_action db action_id = Some old"
    and "fst (update_action db action_id u now db_now) = Inr (Some new)"
  shows "a_contact_id new = a_contact_id old"
  using update_action_outcome [OF assms(1), of u now db_now] assms(2)
  by (elim disjE) (auto simp: action_setattrs_keeps)

text \<open>
  C10. The update schemas of interactions, proposals and actions have no
  \<open>contact_id\<close> field, so whatever the update request and its outcome, every row of
  the three tables keeps its \<open>contact_id\<close> (the tables are read with their primary
  keys), and the entity an update returns has the \<open>contact_id\<close> it had before.
\<close>

theorem updates_keep_contact_id:
  assumes "primary_keys db"
  shows
    "map (\<lambda>i. (i_id i, i_contact_id i))
         (interactions (snd (update_interaction db interaction_id iu db_now)))
       = map (\<lambda>i. (i_id i, i_contact_id i)) (interactions db)
     \<and> (\<forall>old new. get_interaction db interaction_id = Some old
            \<and> fst (update_interaction db interaction_id iu db_now) = Inr (Some new)
          \<longrightarrow> i_contact_id new = i_contact_id old)
     \<and> map (\<lambda>p. (p_id p, p_contact_id p))
         (proposals (snd (update_proposal db proposal_id pu db_now)))
       = map (\<lambda>p. (p_id p, p_contact_id p)) (proposals db)
     \<and> (\<forall>old new. get_proposal db proposal_id = Some old
            \<and> fst (update_proposal db proposal_id pu db_now) = Inr (Some new)
          \<longrightarrow> p_contact_id new = p_contact_id old)
     \<and> map (\<lambda>a. (a_id a, a_contact_id a))
         (actions (snd (update_action db action_id au now db_now)))
       = map (\<lambda>a. (a_id a, a_contact_id a)) (actions db)
     \<and> (\<forall>old new. get_action db action_id = Some old
            \<and> fst (update_action db action_id au now db_now) = Inr (Some new)
          \<longrightarrow> a_contact_id new = a_contact_id old)"
proof -
  from assms have "distinct (map i_id (interactions db))"
    and "distinct (map p_id (proposals db))" and "distinct (map a_id (actions db))"
    by (simp_all add: primary_keys_def)
  then show ?thesis
    by (auto simp only: update_interaction_ownership update_proposal_ownership
        update_action_ownership
        dest: update_interaction_returns update_proposal_returns update_action_returns)
qed

lemma example_primary_keys: "primary_keys example_db"
  by (simp add: primary_keys_def example_defs)

lemma example_get_interaction_1: "get_interaction example_db 1 = Some interaction_1"
  by (simp add: get_interaction_def example_db_def interaction_1_def)

lemma example_get_proposal_2: "get_proposal example_db 2 = Some proposal_2"
  by (simp add: get_proposal_def example_db_def proposal_1_def proposal_2_def)

lemma example_get_action_1: "get_action example_db 1 = Some action_1"
  by (simp add: get_action_def example_db_def action_1_def)

lemma example_update_interaction_1:
  "fst (update_interaction example_db 1 interaction_update_summary 50)
   = Inr (Some (interaction_1\<lparr>i_summary := ''rescheduled'', i_updated_at := 50\<rparr>))"
  by (simp add: update_interaction_def example_get_interaction_1 Let_def)
    (simp add: interaction_setattrs_def interaction_update_summary_def required_def
      nullable_def not_null_ok_def interaction_1_def)

lemma example_update_proposal_2:
  "fst (update_proposal example_db 2 proposal_update_won 50)
   = Inr (Some (proposal_2\<lparr>p_status := ProposalStatus_won, p_updated_at := 50\<rparr>))"
  by (simp add: update_proposal_def example_get_proposal_2 Let_def)
    (simp add: proposal_setattrs_def proposal_update_won_def required_def
      nullable_def not_null_ok_def proposal_2_def)

lemma example_update_action_1:
  "fst (update_action example_db 1 action_update_completed 49 50)
   = Inr (Some (action_1\<lparr>a_status := ActionStatus_completed, a_completed_at := Some 49,
                   a_updated_at := 50\<rparr>))"
  by (simp add: update_action_def example_get_action_1 Let_def)
    (simp add: action_setattrs_def stamp_completed_at_def action_update_completed_def
      required_def nullable_def not_null_ok_def action_references_ok_def action_1_def)

theorem updates_keep_contact_id_witness:
  "primary_keys example_db
   \<and> fst (update_interaction example_db 1 interaction_update_summary 50)
       = Inr (Some (interaction_1\<lparr>i_summary := ''rescheduled'', i_updated_at := 50\<rparr>))
   \<and> map (\<lambda>i. (i_id i, i_contact_id i))
        (interactions (snd (update_interaction example_db 1 interaction_update_summary 50)))
       = [(1, 1), (2, 1), (3, 2)]
   \<and> fst (update_proposal example_db 2 proposal_update_won 50)
       = Inr (Some (proposal_2\<lparr>p_status := ProposalStatus_won, p_updated_at := 50\<rparr>))
   \<and> map (\<lambda>p. (p_id p, p_contact_id p))
        (proposals (snd (update_proposal example_db 2 proposal_update_won 50)))
       = [(1, 1), (2, 2), (3, 2), (4, 2)]
   \<and> fst (update_action example_db 1 action_update_completed 49 50)
       = Inr (Some (action_1\<lparr>a_status := ActionStatus_completed, a_completed_at := Some 49,
                       a_updated_at := 50\<rparr>))
   \<and> map (\<lambda>a. (a_id a, a_contact_id a))
        (actions (snd (update_action example_db 1 action_update_completed 49 50)))
       = [(1, 1), (2, 2), (3, 2)]"
proof -
  note keep = updates_keep_contact_id [OF example_primary_keys,
      of 1 interaction_update_summary 50 2 proposal_update_won 1 action_update_completed 49]
  have "map (\<lambda>i. (i_id i, i_contact_id i))
        (interactions (snd (update_interaction example_db 1 interaction_update_summary 50)))
       = map (\<lambda>i. (i_id i, i_contact_id i)) (interactions example_db)"
    using keep by (elim conjE)
  moreover have "map (\<lambda>p. (p_id p, p_contact_id p))
        (proposals (snd (update_proposal example_db 2 proposal_update_won 50)))
       = map (\<lambda>p. (p_id p, p_contact_id p)) (proposals example_db)"
    using keep by (elim conjE)
  moreover have "map (\<lambda>a. (a_id a, a_contact_id a))
        (actions (snd (update_action example_db 1 action_update_completed 49 50)))
       = map (\<lambda>a. (a_id a, a_contact_id a)) (actions example_db)"
    using keep by (elim conjE)
  ultimately show ?thesis
    by (simp add: example_primary_keys example_update_interaction_1 example_update_proposal_2
        example_update_action_1) (simp add: example_defs)
qed

section \<open>Completing an action\<close>

lemma action_setattrs_completed_at:
  "a_completed_at (action_setattrs a u) = nullable (au_completed_at u) (a_completed_at a)"
  "a_status (action_setattrs a u) = required (au_status u) (a_status a)"
  by (simp_all add: action_setattrs_def)

lemma stamp_completed_at_fields:
  "au_status (stamp_completed_at a u now) = au_status u"
  "au_completed_at (stamp_completed_at a u now)
   = (if au_status u = Given (Some ActionStatus_completed) \<and> a_completed_at a = None
      then Given (Some now) else au_completed_at u)"
  by (simp_all add: stamp_completed_at_def)

lemma update_action_plain_succeeds:
  assumes "get_action db action_id = Some old"
    and "au_title u = Unset" and "au_priority u = Unset" and "au_action_type u = Unset"
    and "au_proposal_id u = Unset" and "au_interaction_id u = Unset"
    and "au_status u \<noteq> Given None"
  shows "fst (update_action db action_id u now db_now) \<noteq> Inl IntegrityError"
proof -
  have "a_proposal_id (action_setattrs old (stamp_completed_at old u now)) = a_proposal_id old"
    and "a_interaction_id (action_setattrs old (stamp_completed_at old u now))
         = a_interaction_id old"
    using assms(5,6) by (simp_all add: action_setattrs_def stamp_completed_at_def nullable_def)
  then have "action_references_ok db old (action_setattrs old (stamp_completed_at old u now))"
    by (simp add: action_references_ok_def)
  moreover have "not_null_ok (au_title (stamp_completed_at old u now))"
    and "not_null_ok (au_priority (stamp_completed_at old u now))"
    and "not_null_ok (au_action_type (stamp_completed_at old u now))"
    and "not_null_ok (au_status (stamp_completed_at old u now))"
    using assms(2,3,4,7)
    by (auto simp: stamp_completed_at_def not_null_ok_def split: field.splits option.splits)
  ultimately show ?thesis
    by (simp add: update_action_def assms(1) Let_def)
qed

text \<open>
  C3 (as amended). For an existing action and an update that sets \<open>status\<close> to
  completed and is not refused: when the stored \<open>completed_at\<close> is null the update
  stamps it with the current time; when it is already set, an update that does not
  itself provide \<open>completed_at\<close> leaves it as it was, and one that provides it stores
  the value provided. An update that names none of the title, priority, type and
  reference fields is never refused.
\<close>

theorem completing_stamps_completed_at:
  assumes "get_action db action_id = Some old"
    and "au_status u = Given (Some ActionStatus_completed)"
  shows
    "(fst (update_action db action_id u now db_now) = Inl IntegrityError
      \<or> (\<exists>new. fst (update_action db action_id u now db_now) = Inr (Some new)
            \<and> a_status new = ActionStatus_completed
            \<and> (a_completed_at old = None \<longrightarrow> a_completed_at new = Some now)
            \<and> (a_completed_at old \<noteq> None \<and> au_completed_at u = Unset
                 \<longrightarrow> a_completed_at new = a_completed_at old)
            \<and> (\<forall>v. a_completed_at old \<noteq> None \<and> au_completed_at u = Given v
                 \<longrightarrow> a_completed_at new = v)))
     \<and> (au_title u = Unset \<and> au_priority u = Unset \<and> au_action_type u = Unset
          \<and> au_proposal_id u = Unset \<and> au_interaction_id u = Unset
        \<longrightarrow> fst (update_action db action_id u now db_now) \<noteq> Inl IntegrityError)"
proof (intro conjI impI)
  let ?changed = "action_setattrs old (stamp_completed_at old u now)"
  have status: "a_status ?changed = ActionStatus_completed"
    by (simp add: action_setattrs_completed_at stamp_completed_at_fields assms(2) required_def)
  have completed_at: "a_completed_at ?changed
      = (if a_completed_at old = None then Some now
         else case au_completed_at u of Unset \<Rightarrow> a_completed_at old | Given v \<Rightarrow> v)"
    by (simp add: action_setattrs_completed_at stamp_completed_at_fields assms(2) nullable_def)
  let ?goal = "\<lambda>new. a_status new = ActionStatus_completed
            \<and> (a_completed_at old = None \<longrightarrow> a_completed_at new = Some now)
            \<and> (a_completed_at old \<noteq> None \<and> au_completed_at u = Unset
                 \<longrightarrow> a_completed_at new = a_completed_at old)
            \<and> (\<forall>v. a_completed_at old \<noteq> None \<and> au_completed_at u = Given v
                 \<longrightarrow> a_completed_at new = v)"
  have goal: "?goal new"
    if "a_status new = a_status ?changed" and "a_completed_at new = a_completed_at ?changed"
    for new
    unfolding that status completed_at by simp
  from update_action_outcome [OF assms(1), of u now db_now]
  show "fst (update_action db action_id u now db_now) = Inl IntegrityError
      \<or> (\<exists>new. fst (update_action db action_id u now db_now) = Inr (Some new) \<and> ?goal new)"
  proof (elim disjE conjE)
    assume "update_action db action_id u now db_now = (Inl IntegrityError, db)"
    then show ?thesis by simp
  next
    assume result: "update_action db action_id u now db_now = (Inr (Some old), db)"
      and same: "?changed = old"
    have "?goal old"
      by (rule goal) (simp_all only: same)
    with result show ?thesis
      by (intro disjI2 exI [of _ old]) simp
  next
    assume result: "update_action db action_id u now db_now
        = (Inr (Some (?changed\<lparr>a_updated_at := db_now\<rparr>)),
           db\<lparr>actions :=
                map (\<lambda>r. if a_id r = action_id then ?changed\<lparr>a_updated_at := db_now\<rparr> else r)
                  (actions db)\<rparr>)"
    have "?goal (?changed\<lparr>a_updated_at := db_now\<rparr>)"
      by (rule goal) simp_all
    with result show ?thesis
      by (intro disjI2 exI [of _ "?changed\<lparr>a_updated_at := db_now\<rparr>"]) simp
  qed
next
  assume "au_title u = Unset \<and> au_priority u = Unset \<and> au_action_type u = Unset
          \<and> au_proposal_id u = Unset \<and> au_interaction_id u = Unset"
  then show "fst (update_action db action_id u now db_now) \<noteq> Inl IntegrityError"
    using update_action_plain_succeeds [OF assms(1), of u now db_now] assms(2) by simp
qed

lemma example_get_action_2: "get_action example_db 2 = Some action_2"
  by (simp add: get_action_def example_db_def action_1_def action_2_def)

lemma example_update_action_2:
  "fst (update_action example_db 2 action_update_completed 49 50) = Inr (Some action_2)"
  by (simp add: update_action_def example_get_action_2 Let_def)
    (simp add: action_setattrs_def stamp_completed_at_def action_update_completed_def
      required_def nullable_def not_null_ok_def action_references_ok_def action_2_def)

lemma example_update_action_1_db:
  "snd (update_action example_db 1 action_update_completed 49 50)
   = example_db\<lparr>actions := [action_1_completed, action_2, action_3]\<rparr>"
  by (simp add: update_action_def example_get_action_1 Let_def)
    (simp add: action_setattrs_def stamp_completed_at_def action_update_completed_def
      required_def nullable_def not_null_ok_def action_references_ok_def action_1_completed_def
      example_defs)

lemma example_get_action_1_completed:
  "get_action (example_db\<lparr>actions := [action_1_completed, action_2, action_3]\<rparr>) 1
   = Some action_1_completed"
  by (simp add: get_action_def action_1_completed_def action_1_def)

lemma example_update_action_1_again:
  "fst (update_action (example_db\<lparr>actions := [action_1_completed, action_2, action_3]\<rparr>) 1
          action_update_completed 60 61)
   = Inr (Some action_1_completed)"
  by (simp add: update_action_def example_get_action_1_completed Let_def)
    (simp add: action_setattrs_def stamp_completed_at_def action_update_completed_def
      required_def nullable_def not_null_ok_def action_references_ok_def action_1_completed_def
      action_1_def)

theorem completing_stamps_completed_at_witness:
  "a_completed_at action_1 = None
   \<and> fst (update_action example_db 1 action_update_completed 49 50)
       = Inr (Some action_1_completed)
   \<and> a_completed_at action_1_completed = Some 49
   \<and> fst (update_action (snd (update_action example_db 1 action_update_completed 49 50)) 1
             action_update_completed 60 61)
       = Inr (Some action_1_completed)"
proof -
  have status: "au_status action_update_completed = Given (Some ActionStatus_completed)"
    by (simp add: action_update_completed_def)
  have plain: "au_title action_update_completed = Unset
      \<and> au_priority action_update_completed = Unset
      \<and> au_action_type action_update_completed = Unset
      \<and> au_proposal_id action_update_completed = Unset
      \<and> au_interaction_id action_update_completed = Unset"
    by (simp add: action_update_completed_def)
  have "fst (update_action example_db 1 action_update_completed 49 50) \<noteq> Inl IntegrityError"
    using completing_stamps_completed_at [OF example_get_action_1 status, of 49 50,
        THEN conjunct2] plain
    by (rule mp)
  moreover have "fst (update_action
        (example_db\<lparr>actions := [action_1_completed, action_2, action_3]\<rparr>) 1
        action_update_completed 60 61) \<noteq> Inl IntegrityError"
    using completing_stamps_completed_at [OF example_get_action_1_completed status, of 60 61,
        THEN conjunct2] plain
    by (rule mp)
  ultimately show ?thesis
    by (simp add: example_update_action_1 example_update_action_1_db
        example_update_action_1_again)
      (simp add: action_1_completed_def action_1_def)
qed

lemma example_update_action_2_recompleted:
  "fst (update_action example_db 2 action_update_recompleted 49 50)
   = Inr (Some (action_2\<lparr>a_completed_at := Some 99, a_updated_at := 50\<rparr>))"
  by (simp add: update_action_def example_get_action_2 Let_def)
    (simp add: action_setattrs_def stamp_completed_at_def action_update_recompleted_def
      required_def nullable_def not_null_ok_def action_references_ok_def action_2_def)

text \<open>
  C3 as first stated fails: an update that sets \<open>status\<close> to completed and provides
  \<open>completed_at\<close> changes a \<open>completed_at\<close> that was already set.
\<close>

theorem completed_at_overwritten_counterexample:
  "get_action example_db 2 = Some action_2
   \<and> a_completed_at action_2 = Some 26
   \<and> au_status action_update_recompleted = Given (Some ActionStatus_completed)
   \<and> fst (update_action example_db 2 action_update_recompleted 49 50)
       = Inr (Some (action_2\<lparr>a_completed_at := Some 99, a_updated_at := 50\<rparr>))
   \<and> a_completed_at (action_2\<lparr>a_completed_at := Some 99, a_updated_at := 50\<rparr>)
       \<noteq> a_completed_at action_2"
  by (simp add: example_get_action_2 example_update_action_2_recompleted)
    (simp add: action_2_def action_update_recompleted_def)

section \<open>What a partial update leaves alone\<close>

lemma contact_setattrs_keeps:
  "c_id (contact_setattrs c u) = c_id c"
  "c_created_at (contact_setattrs c u) = c_created_at c"
  "c_updated_at (contact_setattrs c u) = c_updated_at c"
  by (simp_all add: contact_setattrs_def)

lemma contact_setattrs_unset:
  "cu_first_name u = Unset \<Longrightarrow> c_first_name (contact_setattrs c u) = c_first_name c"
  "cu_last_name u = Unset \<Longrightarrow> c_last_name (contact_setattrs c u) = c_last_name c"
  "cu_email u = Unset \<Longrightarrow> c_email (contact_setattrs c u) = c_email c"
  "cu_phone u = Unset \<Longrightarrow> c_phone (contact_setattrs c u) = c_phone c"
  "cu_company u = Unset \<Longrightarrow> c_company (contact_setattrs c u) = c_company c"
  "cu_job_title u = Unset \<Longrightarrow> c_job_title (contact_setattrs c u) = c_job_title c"
  "cu_status u = Unset \<Longrightarrow> c_status (contact_setattrs c u) = c_status c"
  "cu_source u = Unset \<Longrightarrow> c_source (contact_setattrs c u) = c_source c"
  "cu_owner_id u = Unset \<Longrightarrow> c_owner_id (contact_setattrs c u) = c_owner_id c"
  "cu_tags u = Unset \<Longrightarrow> c_tags (contact_setattrs c u) = c_tags c"
  "cu_notes u = Unset \<Longrightarrow> c_notes (contact_setattrs c u) = c_notes c"
  "cu_next_action u = Unset \<Longrightarrow> c_next_action (contact_setattrs c u) = c_next_action c"
  by (simp_all add: contact_setattrs_def nullable_def required_def)

lemma interaction_setattrs_unset:
  "iu_type u = Unset \<Longrightarrow> i_type (interaction_setattrs i u) = i_type i"
  "iu_occurred_at u = Unset \<Longrightarrow> i_occurred_at (interaction_setattrs i u) = i_occurred_at i"
  "iu_summary u = Unset \<Longrightarrow> i_summary (interaction_setattrs i u) = i_summary i"
  "iu_outcome u = Unset \<Longrightarrow> i_outcome (interaction_setattrs i u) = i_outcome i"
  "iu_created_by u = Unset \<Longrightarrow> i_created_by (interaction_setattrs i u) = i_created_by i"
  by (simp_all add: interaction_setattrs_def nullable_def required_def)

lemma proposal_setattrs_unset:
  "pu_title u = Unset \<Longrightarrow> p_title (proposal_setattrs p u) = p_title p"
  "pu_description u = Unset \<Longrightarrow> p_description (proposal_setattrs p u) = p_description p"
  "pu_value u = Unset \<Longrightarrow> p_value (proposal_setattrs p u) = p_value p"
  "pu_status u = Unset \<Longrightarrow> p_status (proposal_setattrs p u) = p_status p"
  "pu_applied_at u = Unset \<Longrightarrow> p_applied_at (proposal_setattrs p u) = p_applied_at p"
  "pu_expires_at u = Unset \<Longrightarrow> p_expires_at (proposal_setattrs p u) = p_expires_at p"
  by (simp_all add: proposal_setattrs_def nullable_def required_def)

lemma action_setattrs_unset:
  "au_title u = Unset \<Longrightarrow> a_title (action_setattrs a u) = a_title a"
  "au_description u = Unset \<Longrightarrow> a_description (action_setattrs a u) = a_description a"
  "au_status u = Unset \<Longrightarrow> a_status (action_setattrs a u) = a_status a"
  "au_priority u = Unset \<Longrightarrow> a_priority (action_setattrs a u) = a_priority a"
  "au_action_type u = Unset \<Longrightarrow> a_action_type (action_setattrs a u) = a_action_type a"
  "au_due_at u = Unset \<Longrightarrow> a_due_at (action_setattrs a u) = a_due_at a"
  "au_completed_at u = Unset \<Longrightarrow> a_completed_at (action_setattrs a u) = a_completed_at a"
  "au_assigned_to u = Unset \<Longrightarrow> a_assigned_to (action_setattrs a u) = a_assigned_to a"
  "au_proposal_id u = Unset \<Longrightarrow> a_proposal_id (action_setattrs a u) = a_proposal_id a"
  "au_interaction_id u = Unset \<Longrightarrow> a_interaction_id (action_setattrs a u) = a_interaction_id a"
  by (simp_all add: action_setattrs_def nullable_def required_def)

lemma stamp_completed_at_other_fields:
  "au_title (stamp_completed_at a u now) = au_title u"
  "au_description (stamp_completed_at a u now) = au_description u"
  "au_priority (stamp_completed_at a u now) = au_priority u"
  "au_action_type (stamp_completed_at a u now) = au_action_type u"
  "au_due_at (stamp_completed_at a u now) = au_due_at u"
  "au_assigned_to (stamp_completed_at a u now) = au_assigned_to u"
  "au_proposal_id (stamp_completed_at a u now) = au_proposal_id u"
  "au_interaction_id (stamp_completed_at a u now) = au_interaction_id u"
  by (simp_all add: stamp_completed_at_def)

lemma update_contact_outcome:
  assumes "get_contact db contact_id = Some old"
  shows "update_contact db contact_id u db_now = (Inl IntegrityError, db)
     \<or> (update_contact db contact_id u db_now = (Inr (Some old), db)
         \<and> contact_setattrs old u = old)
     \<or> update_contact db contact_id u db_now
        = (Inr (Some ((contact_setattrs old u)\<lparr>c_updated_at := db_now\<rparr>)),
           db\<lparr>contacts :=
                map (\<lambda>r. if c_id r = contact_id
                         then (contact_setattrs old u)\<lparr>c_updated_at := db_now\<rparr> else r)
                  (contacts db)\<rparr>)"
  by (simp add: update_contact_def assms Let_def)

lemma update_contact_returned:
  assumes "get_contact db contact_id = Some old"
    and "fst (update_contact db contact_id u db_now) = Inr (Some new)"
  shows "new = contact_setattrs old u \<or> new = (contact_setattrs old u)\<lparr>c_updated_at := db_now\<rparr>"
  using update_contact_outcome [OF assms(1), of u db_now] assms(2)
  by (elim disjE conjE) simp_all

lemma update_interaction_returned:
  assumes "get_interaction db interaction_id = Some old"
    and "fst (update_interaction db interaction_id u db_now) = Inr (Some new)"
  shows "new = interaction_setattrs old u
     \<or> new = (interaction_setattrs old u)\<lparr>i_updated_at := db_now\<rparr>"
  using update_interaction_outcome [OF assms(1), of u db_now] assms(2)
  by (elim disjE conjE) simp_all

lemma update_proposal_returned:
  assumes "get_proposal db proposal_id = Some old"
    and "fst (update_proposal db proposal_id u db_now) = Inr (Some new)"
  shows "new = proposal_setattrs old u
     \<or> new = (proposal_setattrs old u)\<lparr>p_updated_at := db_now\<rparr>"
  using update_proposal_outcome [OF assms(1), of u db_now] assms(2)
  by (elim disjE conjE) simp_all

lemma update_action_returned:
  assumes "get_action db action_id = Some old"
    and "fst (update_action db action_id u now db_now) = Inr (Some new)"
  shows "new = action_setattrs old (stamp_completed_at old u now)
     \<or> new = (action_setattrs old (stamp_completed_at old u now))\<lparr>a_updated_at := db_now\<rparr>"
  using update_action_outcome [OF assms(1), of u now db_now] assms(2)
  by (elim disjE conjE) simp_all

lemma update_contact_frame:
  assumes "get_contact db contact_id = Some old"
    and "fst (update_contact db contact_id u db_now) = Inr (Some new)"
  shows "contact_frame u old new"
  unfolding contact_frame_def
  using update_contact_returned [OF assms]
  by (elim disjE) (simp_all add: contact_setattrs_keeps contact_setattrs_unset)

lemma update_interaction_frame:
  assumes "get_interaction db interaction_id = Some old"
    and "fst (update_interaction db interaction_id u db_now) = Inr (Some new)"
  shows "interaction_frame u old new"
  unfolding interaction_frame_def
  using update_interaction_returned [OF assms]
  by (elim disjE) (simp_all add: interaction_setattrs_keeps interaction_setattrs_unset)

lemma update_proposal_frame:
  assumes "get_proposal db proposal_id = Some old"
    and "fst (update_proposal db proposal_id u db_now) = Inr (Some new)"
  shows "proposal_frame u old new"
  unfolding proposal_frame_def
  using update_proposal_returned [OF assms]
  by (elim disjE) (simp_all add: proposal_setattrs_keeps proposal_setattrs_unset)

lemma update_action_frame:
  assumes "get_action db action_id = Some old"
    and "fst (update_action db action_id u now db_now) = Inr (Some new)"
  shows "action_frame u old new"
  unfolding action_frame_def
  using update_action_returned [OF assms]
  by (elim disjE)
    (simp_all add: action_setattrs_keeps action_setattrs_unset stamp_completed_at_other_fields
      stamp_completed_at_fields)

text \<open>
  C2 (as amended). For an existing contact, interaction, proposal or action and any
  update request that is not refused, the entity returned differs from the stored one,
  among the fields a request can name, only in fields the request names (an omitted
  field is never read as a null), and keeps its identifier, owner and creation time.
  Two columns are outside this: \<open>updated_at\<close>, which the database refreshes, and
  the \<open>completed_at\<close> of an action that was not completed when the request sets its
  status to completed.
\<close>

theorem partial_update_frame:
  "(\<forall>old new. get_contact db contact_id = Some old
        \<and> fst (update_contact db contact_id cu db_now) = Inr (Some new)
      \<longrightarrow> contact_frame cu old new)
   \<and> (\<forall>old new. get_interaction db interaction_id = Some old
        \<and> fst (update_interaction db interaction_id iu db_now) = Inr (Some new)
      \<longrightarrow> interaction_frame iu old new)
   \<and> (\<forall>old new. get_proposal db proposal_id = Some old
        \<and> fst (update_proposal db proposal_id pu db_now) = Inr (Some new)
      \<longrightarrow> proposal_frame pu old new)
   \<and> (\<forall>old new. get_action db action_id = Some old
        \<and> fst (update_action db action_id au now db_now) = Inr (Some new)
      \<longrightarrow> action_frame au old new)"
  by (intro conjI allI impI;
      (elim conjE,
       (rule update_contact_frame | rule update_interaction_frame
        | rule update_proposal_frame | rule update_action_frame);
       assumption))

lemma example_update_contact_1:
  "fst (update_contact example_db 1 contact_update_phone 50)
   = Inr (Some (contact_A\<lparr>c_phone := Some ''555 0100'', c_updated_at := 50\<rparr>))"
  by (simp add: update_contact_def example_get_contact_1 Let_def)
    (simp add: contact_setattrs_def contact_update_phone_def required_def nullable_def
      not_null_ok_def email_unique_ok_def example_db_def contact_A_def contact_B_def
      contact_C_def)

theorem partial_update_frame_witness:
  "fst (update_contact example_db 1 contact_update_phone 50)
     = Inr (Some (contact_A\<lparr>c_phone := Some ''555 0100'', c_updated_at := 50\<rparr>))
   \<and> contact_frame contact_update_phone contact_A
       (contact_A\<lparr>c_phone := Some ''555 0100'', c_updated_at := 50\<rparr>)
   \<and> fst (update_action example_db 2 action_update_completed 49 50) = Inr (Some action_2)
   \<and> action_frame action_update_completed action_2 action_2"
proof -
  note frame = partial_update_frame [of example_db 1 contact_update_phone 50
      1 interaction_update_summary 1 proposal_update_won 2 action_update_completed 49]
  have "contact_frame contact_update_phone contact_A
       (contact_A\<lparr>c_phone := Some ''555 0100'', c_updated_at := 50\<rparr>)"
    using frame example_get_contact_1 example_update_contact_1 by blast
  moreover have "action_frame action_update_completed action_2 action_2"
    using frame example_get_action_2 example_update_action_2 by blast
  ultimately show ?thesis
    by (simp add: example_update_contact_1 example_update_action_2)
qed

text \<open>
  C2 as first stated fails: a request that names only \<open>status\<close> changes the
  \<open>completed_at\<close> and the \<open>updated_at\<close> of the action.
\<close>

theorem omitted_completed_at_changed_counterexample:
  "get_action example_db 1 = Some action_1
   \<and> au_completed_at action_update_completed = Unset
   \<and> fst (update_action example_db 1 action_update_completed 49 50)
       = Inr (Some action_1_completed)
   \<and> a_completed_at action_1 = None
   \<and> a_completed_at action_1_completed = Some 49
   \<and> a_updated_at action_1 = 14
   \<and> a_updated_at action_1_completed = 50"
  by (simp add: example_get_action_1 example_update_action_1)
    (simp add: action_update_completed_def action_1_completed_def action_1_def)

section \<open>Email uniqueness\<close>

lemma get_contact_by_email_None:
  "get_contact_by_email db e = None \<longleftrightarrow> \<not> (\<exists>c \<in> set (contacts db). c_email c = Some e)"
  by (auto simp: get_contact_by_email_def find_None_iff)

lemma map_filter_unique:
  assumes "distinct (List.map_filter f xs)" and "x \<in> set xs" and "y \<in> set xs"
    and "f x = Some k" and "f y = Some k"
  shows "x = y"
  using assms
proof (induction xs)
  case Nil
  then show ?case by simp
next
  case (Cons z zs)
  have in_rest: "k \<in> set (List.map_filter f zs)" if "w \<in> set zs" and "f w = Some k" for w
    using that by (force simp: List.map_filter_def image_iff)
  from Cons show ?case
    by (cases "f z") (auto dest: in_rest)
qed

lemma email_holder_unique:
  assumes "unique_emails db" and "get_contact_by_email db e = Some holder"
    and "c \<in> set (contacts db)" and "c_email c = Some e"
  shows "c = holder"
proof -
  from assms(2) have "holder \<in> set (contacts db)" and "c_email holder = Some e"
    by (auto simp: get_contact_by_email_def find_Some_iff)
  with assms(1,3,4) show ?thesis
    unfolding unique_emails_def by (blast intro: map_filter_unique)
qed

lemma get_contact_member:
  assumes "get_contact db contact_id = Some c"
  shows "c \<in> set (contacts db)" and "c_id c = contact_id"
  using assms by (auto simp: get_contact_def find_Some_iff)

lemma create_contact_no_http:
  "fst (create_contact db contact db_now) \<noteq> Inl (HTTPException n msg)"
  by (simp add: create_contact_def Let_def)

lemma create_contact_without_email:
  assumes "cc_email contact = None" and "sequence_ahead db"
  shows "\<exists>c. fst (create_contact db contact db_now) = Inr c \<and> c_email c = None"
proof -
  from assms(2) have "\<not> list_ex (\<lambda>r. c_id r = contacts_id_seq db + 1) (contacts db)"
    by (auto simp: sequence_ahead_def list_all_iff list_ex_iff)
  then show ?thesis
    by (simp add: create_contact_def Let_def assms(1) email_unique_ok_def)
qed

lemma api_create_contact_conflict_iff:
  "fst (api_create_contact db contact db_now) = Inl (HTTPException 400 ''Email already registered'')
   \<longleftrightarrow> (\<exists>e. cc_email contact = Some e \<and> e \<noteq> []
          \<and> (\<exists>c \<in> set (contacts db). c_email c = Some e))"
proof (cases "cc_email contact")
  case None
  then show ?thesis
    by (simp add: api_create_contact_def create_contact_no_http)
next
  case (Some e)
  show ?thesis
  proof (cases "e \<noteq> [] \<and> get_contact_by_email db e \<noteq> None")
    case True
    then show ?thesis
      using get_contact_by_email_None [of db e]
      by (simp add: api_create_contact_def Some)
  next
    case False
    then have "fst (api_create_contact db contact db_now) = fst (create_contact db contact db_now)"
      by (auto simp: api_create_contact_def Some)
    with False show ?thesis
      using get_contact_by_email_None [of db e]
      by (auto simp: Some create_contact_no_http)
  qed
qed

lemma api_create_contact_conflict_unchanged:
  assumes "fst (api_create_contact db contact db_now)
           = Inl (HTTPException 400 ''Email already registered'')"
  shows "snd (api_create_contact db contact db_now) = db"
proof (cases "cc_email contact")
  case None
  with assms show ?thesis
    by (simp add: api_create_contact_def create_contact_no_http)
next
  case (Some e)
  with assms show ?thesis
    by (cases "e \<noteq> [] \<and> get_contact_by_email db e \<noteq> None")
      (auto simp: api_create_contact_def create_contact_no_http)
qed

lemma update_contact_no_http:
  "fst (update_contact db contact_id u db_now) \<noteq> Inl (HTTPException n msg)"
  by (cases "get_contact db contact_id") (simp_all add: update_contact_def Let_def)

lemma api_update_contact_conflict:
  assumes "unique_emails db" and "cu_email u = Given (Some e)" and "e \<noteq> []"
    and "c \<in> set (contacts db)" and "c_email c = Some e" and "c_id c \<noteq> contact_id"
  shows "api_update_contact db contact_id u db_now
         = (Inl (HTTPException 400 ''Email already registered''), db)"
proof -
  from assms(4,5) obtain holder where holder: "get_contact_by_email db e = Some holder"
    using get_contact_by_email_None [of db e] by auto
  then have "c = holder"
    using email_holder_unique [OF assms(1) holder assms(4,5)] by simp
  with holder assms(6) have "email_registered_elsewhere db contact_id e"
    by (simp add: email_registered_elsewhere_def)
  then show ?thesis
    by (simp add: api_update_contact_def assms(2,3))
qed

lemma own_email_not_elsewhere:
  assumes "unique_emails db" and "get_contact db contact_id = Some c" and "c_email c = Some e"
  shows "\<not> email_registered_elsewhere db contact_id e"
    and "email_unique_ok (contacts db) contact_id (Some e)"
proof -
  note c = get_contact_member [OF assms(2)]
  from c(1) assms(3) obtain holder where holder: "get_contact_by_email db e = Some holder"
    using get_contact_by_email_None [of db e] by auto
  then have "c = holder"
    using email_holder_unique [OF assms(1) holder c(1) assms(3)] by simp
  with holder c(2) show "\<not> email_registered_elsewhere db contact_id e"
    by (simp add: email_registered_elsewhere_def)
  have "r = c" if "r \<in> set (contacts db)" and "c_email r = Some e" for r
    using email_holder_unique [OF assms(1) holder that] \<open>c = holder\<close> by simp
  with c(2) show "email_unique_ok (contacts db) contact_id (Some e)"
    by (auto simp: email_unique_ok_def list_ex_iff)
qed

lemma api_update_contact_no_conflict:
  assumes "\<not> (\<exists>e. cu_email u = Given (Some e) \<and> e \<noteq> []
                \<and> email_registered_elsewhere db contact_id e)"
  shows "fst (api_update_contact db contact_id u db_now)
         \<noteq> Inl (HTTPException 400 ''Email already registered'')"
proof -
  from assms have "api_update_contact db contact_id u db_now
      = (case update_contact db contact_id u db_now of
           (Inl e, db') \<Rightarrow> (Inl e, db')
         | (Inr None, db') \<Rightarrow> (Inl (HTTPException 404 ''Contact not found''), db')
         | (Inr (Some updated), db') \<Rightarrow> (Inr updated, db'))"
    by (auto simp: api_update_contact_def split: field.splits option.splits)
  then show ?thesis
    using update_contact_no_http [of db contact_id u db_now 400 "''Email already registered''"]
    by (auto split: prod.splits sum.splits option.splits)
qed

lemma api_update_own_email:
  assumes "unique_emails db" and "get_contact db contact_id = Some c" and "c_email c = Some e"
  shows "api_update_contact db contact_id (only_email e) db_now = (Inr c, db)"
proof -
  note own = own_email_not_elsewhere [OF assms]
  have same: "contact_setattrs c (only_email e) = c"
    by (simp add: contact_setattrs_def only_email_def required_def nullable_def assms(3))
  have "update_contact db contact_id (only_email e) db_now = (Inr (Some c), db)"
    using own(2) assms(3)
    by (simp add: update_contact_def assms(2) Let_def same)
      (simp add: only_email_def not_null_ok_def)
  moreover have "cu_email (only_email e) = Given (Some e)"
    by (simp add: only_email_def)
  ultimately show ?thesis
    using own(1) by (simp add: api_update_contact_def)
qed

text \<open>
  C5. In a database whose emails are unique (emails are validated addresses, so never
  the empty string): creating a contact through the route fails with the conflict
  error exactly when its email is the email of an existing contact, and then leaves
  the database as it was; a contact without email is created, whatever the others
  hold. Updating a contact's email to an email another contact holds fails with the
  conflict error and leaves the database as it was; updating a contact to its own
  current email returns the contact and is never a conflict; a request that does not
  name the email, or nulls it, is never a conflict.
\<close>

theorem email_uniqueness:
  assumes "unique_emails db" and "sequence_ahead db"
  shows
    "(fst (api_create_contact db contact db_now)
        = Inl (HTTPException 400 ''Email already registered'')
      \<longleftrightarrow> (\<exists>e. cc_email contact = Some e \<and> e \<noteq> []
             \<and> (\<exists>c \<in> set (contacts db). c_email c = Some e)))
     \<and> (fst (api_create_contact db contact db_now)
          = Inl (HTTPException 400 ''Email already registered'')
        \<longrightarrow> snd (api_create_contact db contact db_now) = db)
     \<and> (cc_email contact = None
        \<longrightarrow> (\<exists>c. fst (api_create_contact db contact db_now) = Inr c \<and> c_email c = None))
     \<and> (\<forall>e c. cu_email u = Given (Some e) \<and> e \<noteq> [] \<and> c \<in> set (contacts db)
            \<and> c_email c = Some e \<and> c_id c \<noteq> contact_id
          \<longrightarrow> api_update_contact db contact_id u db_now
              = (Inl (HTTPException 400 ''Email already registered''), db))
     \<and> (\<forall>e c. get_contact db contact_id = Some c \<and> c_email c = Some e
          \<longrightarrow> api_update_contact db contact_id (only_email e) db_now = (Inr c, db)
            \<and> (cu_email u = Given (Some e)
               \<longrightarrow> fst (api_update_contact db contact_id u db_now)
                   \<noteq> Inl (HTTPException 400 ''Email already registered'')))
     \<and> (cu_email u = Unset \<or> cu_email u = Given None
        \<longrightarrow> fst (api_update_contact db contact_id u db_now)
            \<noteq> Inl (HTTPException 400 ''Email already registered''))"
proof (intro conjI)
  show "fst (api_create_contact db contact db_now)
        = Inl (HTTPException 400 ''Email already registered'')
      \<longleftrightarrow> (\<exists>e. cc_email contact = Some e \<and> e \<noteq> []
             \<and> (\<exists>c \<in> set (contacts db). c_email c = Some e))"
    by (rule api_create_contact_conflict_iff)
  show "fst (api_create_contact db contact db_now)
          = Inl (HTTPException 400 ''Email already registered'')
        \<longrightarrow> snd (api_create_contact db contact db_now) = db"
    by (simp add: api_create_contact_conflict_unchanged)
  show "cc_email contact = None
        \<longrightarrow> (\<exists>c. fst (api_create_contact db contact db_now) = Inr c \<and> c_email c = None)"
    using create_contact_without_email [OF _ assms(2), of contact db_now]
    by (simp add: api_create_contact_def)
  show "\<forall>e c. cu_email u = Given (Some e) \<and> e \<noteq> [] \<and> c \<in> set (contacts db)
            \<and> c_email c = Some e \<and> c_id c \<noteq> contact_id
          \<longrightarrow> api_update_contact db contact_id u db_now
              = (Inl (HTTPException 400 ''Email already registered''), db)"
    using api_update_contact_conflict [OF assms(1), of u _ _ contact_id db_now] by blast
  show "\<forall>e c. get_contact db contact_id = Some c \<and> c_email c = Some e
          \<longrightarrow> api_update_contact db contact_id (only_email e) db_now = (Inr c, db)
            \<and> (cu_email u = Given (Some e)
               \<longrightarrow> fst (api_update_contact db contact_id u db_now)
                   \<noteq> Inl (HTTPException 400 ''Email already registered''))"
  proof (intro allI impI conjI)
    fix e c
    assume c: "get_contact db contact_id = Some c \<and> c_email c = Some e"
    then show "api_update_contact db contact_id (only_email e) db_now = (Inr c, db)"
      using api_update_own_email [OF assms(1), of contact_id c e db_now] by simp
    assume "cu_email u = Given (Some e)"
    moreover from c have "\<not> email_registered_elsewhere db contact_id e"
      using own_email_not_elsewhere(1) [OF assms(1), of contact_id c e] by simp
    ultimately show "fst (api_update_contact db contact_id u db_now)
        \<noteq> Inl (HTTPException 400 ''Email already registered'')"
      by (intro api_update_contact_no_conflict) simp
  qed
  show "cu_email u = Unset \<or> cu_email u = Given None
        \<longrightarrow> fst (api_update_contact db contact_id u db_now)
            \<noteq> Inl (HTTPException 400 ''Email already registered'')"
    by (intro impI api_update_contact_no_conflict) auto
qed

lemma example_db_D_invariants: "unique_emails example_db_D" "sequence_ahead example_db_D"
  by (simp_all add: unique_emails_def sequence_ahead_def example_db_D_def example_db_def
      contact_A_def contact_B_def contact_C_def contact_D_def)

lemma example_create_D:
  "api_create_contact example_db contact_create_D 50 = (Inr contact_D, example_db_D)"
  by (simp add: api_create_contact_def create_contact_def get_contact_by_email_def Let_def
      email_unique_ok_def contact_create_D_def contact_D_def example_db_D_def example_db_def
      contact_A_def contact_B_def contact_C_def)

lemma example_get_contact_D: "get_contact example_db_D 4 = Some contact_D"
  by (simp add: get_contact_def example_db_D_def example_db_def
      contact_A_def contact_B_def contact_C_def contact_D_def)

theorem email_uniqueness_witness:
  "api_create_contact example_db contact_create_D 50 = (Inr contact_D, example_db_D)
   \<and> api_create_contact example_db_D contact_create_D 51
       = (Inl (HTTPException 400 ''Email already registered''), example_db_D)
   \<and> api_update_contact example_db_D 4 (only_email ''x@example.com'') 51
       = (Inr contact_D, example_db_D)
   \<and> api_update_contact example_db_D 1 (only_email ''x@example.com'') 51
       = (Inl (HTTPException 400 ''Email already registered''), example_db_D)"
proof -
  note unique = email_uniqueness [OF example_db_D_invariants,
      of contact_create_D 51 "only_email ''x@example.com''" 1]
  have D: "contact_D \<in> set (contacts example_db_D)" "c_email contact_D = Some ''x@example.com''"
    "c_id contact_D \<noteq> 1" "cc_email contact_create_D = Some ''x@example.com''"
    "cu_email (only_email ''x@example.com'') = Given (Some ''x@example.com'')"
    by (simp_all add: example_db_D_def contact_D_def contact_create_D_def only_email_def)
  have "fst (api_create_contact example_db_D contact_create_D 51)
      = Inl (HTTPException 400 ''Email already registered'')"
    using unique D by blast
  moreover from this have "snd (api_create_contact example_db_D contact_create_D 51) = example_db_D"
    using unique by blast
  moreover have "api_update_contact example_db_D 1 (only_email ''x@example.com'') 51
      = (Inl (HTTPException 400 ''Email already registered''), example_db_D)"
    using unique D by blast
  moreover have "api_update_contact example_db_D 4 (only_email ''x@example.com'') 51
      = (Inr contact_D, example_db_D)"
    using email_uniqueness [OF example_db_D_invariants,
      of contact_create_D 51 "only_email ''x@example.com''" 4]
      example_get_contact_D D(2) by blast
  ultimately show ?thesis
    by (simp add: example_create_D prod_eq_iff)
qed

section \<open>Counting actions by type\<close>

text \<open>
  C7 (not met by the code). \<open>count_actions_by_type\<close> is meant to map each action
  type that occurs to the number of actions of that type. It selects the status
  column and groups by the type column, a query the database refuses: on a table with
  one call, one email and one meeting it returns no mapping, where the count by
  status, which selects the column it groups by, returns its counts.
\<close>

theorem count_actions_by_type_refused:
  "map a_action_type (actions example_db)
     = [ActionType_call, ActionType_email, ActionType_meeting]
   \<and> count_actions_by_type example_db None = Inl ProgrammingError
   \<and> count_actions_by_status example_db None
     = Inr [(StatusValue ActionStatus_completed, 1), (StatusValue ActionStatus_pending, 2)]"
  by (simp add: count_actions_by_type_def count_actions_by_status_def count_group_by_def
      group_keys_def filter_by_id_def example_db_def action_1_def action_2_def action_3_def)

section \<open>Proposal statistics\<close>

lemma sum_list_indicator:
  fixes v :: "'b::comm_monoid_add"
  assumes "distinct ks"
  shows "sum_list (map (\<lambda>k. if a = k then v else 0) ks) = (if a \<in> set ks then v else 0)"
  using assms by (induction ks) auto

lemma sum_list_group:
  fixes f :: "'r \<Rightarrow> 'b::comm_monoid_add"
  assumes "distinct ks" and "key ` set rows \<subseteq> set ks"
  shows "sum_list (map (\<lambda>k. sum_list (map f (filter (\<lambda>r. key r = k) rows))) ks)
         = sum_list (map f rows)"
  using assms(2)
proof (induction rows)
  case Nil
  show ?case by simp
next
  case (Cons r rows)
  have "sum_list (map (\<lambda>k. sum_list (map f (filter (\<lambda>r. key r = k) (r # rows)))) ks)
        = sum_list (map (\<lambda>k. (if key r = k then f r else 0)
                              + sum_list (map f (filter (\<lambda>r. key r = k) rows))) ks)"
    by (intro arg_cong [where f = sum_list] map_cong) auto
  also have "\<dots> = sum_list (map (\<lambda>k. if key r = k then f r else 0) ks)
                  + sum_list (map (\<lambda>k. sum_list (map f (filter (\<lambda>r. key r = k) rows))) ks)"
    by (simp add: sum_list_addf)
  also have "\<dots> = f r + sum_list (map f rows)"
    using Cons sum_list_indicator [OF assms(1), of "key r" "f r"] by simp
  finally show ?case by simp
qed

lemma sum_list_ones: "sum_list (map (\<lambda>_. Suc 0) xs) = length xs"
  by (induction xs) simp_all

lemma length_group:
  assumes "distinct ks" and "key ` set rows \<subseteq> set ks"
  shows "sum_list (map (\<lambda>k. length (filter (\<lambda>r. key r = k) rows)) ks) = length rows"
  using sum_list_group [OF assms, of "\<lambda>_. Suc 0"] by (simp add: sum_list_ones)

lemma sum_list_scan:
  fixes f :: "'k \<Rightarrow> nat"
  assumes "permutation scan"
  shows "sum_list (map f (scan ks)) = sum_list (map f ks)"
proof -
  have "mset (map f (scan ks)) = mset (map f ks)"
    using assms by (simp add: permutation_def)
  then show ?thesis by (metis sum_mset_sum_list)
qed

lemma set_scan:
  assumes "permutation scan"
  shows "set (scan ks) = set ks"
  using assms by (metis permutation_def mset_eq_setD)

lemma float_of_decimal_0: "float_of_decimal 0 = Double 0 0"
  by (simp add: float_of_decimal_def round_ratio_def)

lemma float_of_sql_sum:
  "(case sql_sum (map p_value ps) of
      None \<Rightarrow> Double 0 0
    | Some t \<Rightarrow> if t = 0 then Double 0 0 else float_of_decimal t)
   = float_of_decimal (value_sum ps)"
proof -
  have "List.map_filter (\<lambda>v. v) (map p_value ps) = List.map_filter p_value ps"
    by (induction ps) (auto split: option.splits)
  then show ?thesis
    by (cases "List.map_filter p_value ps")
      (auto simp: sql_sum_def value_sum_def float_of_decimal_0)
qed

lemma dict_get_map:
  "dict_get (map (\<lambda>k. (k, f k)) ks) s d = (if s \<in> set ks then f s else d)"
  by (induction ks) (auto simp: dict_get_def)

lemma proposals_in_scope_query:
  assumes "contact_id \<noteq> Some 0"
  shows "filter_by_id contact_id (\<lambda>v p. p_contact_id p = v) (proposals db)
         = proposals_in_scope db contact_id"
  using assms by (auto simp: filter_by_id_def proposals_in_scope_def split: option.splits)

lemma count_proposals_by_status_eq:
  assumes "contact_id \<noteq> Some 0"
  shows "count_proposals_by_status db scan contact_id
   = map (\<lambda>k. (k, length (filter (\<lambda>p. p_status p = k) (proposals_in_scope db contact_id))))
       (scan (group_keys p_status (proposals_in_scope db contact_id)))"
  by (simp add: count_proposals_by_status_def Let_def proposals_in_scope_query [OF assms])

lemma get_total_value_by_status_eq:
  assumes "contact_id \<noteq> Some 0"
  shows "get_total_value_by_status db scan contact_id
   = map (\<lambda>k. (k, float_of_decimal
                    (value_sum (filter (\<lambda>p. p_status p = k) (proposals_in_scope db contact_id)))))
       (scan (group_keys p_status (proposals_in_scope db contact_id)))"
  by (simp add: get_total_value_by_status_def Let_def proposals_in_scope_query [OF assms]
      float_of_sql_sum comp_def)

lemma counts_get:
  assumes "contact_id \<noteq> Some 0" and "permutation scan"
  shows "dict_get (count_proposals_by_status db scan contact_id) s 0
   = length (filter (\<lambda>p. p_status p = s) (proposals_in_scope db contact_id))"
proof -
  have "length (filter (\<lambda>p. p_status p = s) rows) = 0" if "s \<notin> p_status ` set rows"
    for rows :: "Proposal list"
    using that by (auto simp: filter_empty_conv)
  then show ?thesis
    by (auto simp: count_proposals_by_status_eq [OF assms(1)] dict_get_map
        set_scan [OF assms(2)] group_keys_def)
qed

lemma totals_get:
  assumes "contact_id \<noteq> Some 0" and "permutation scan"
  shows "dict_get (get_total_value_by_status db scan contact_id) s (Double 0 0)
   = float_of_decimal
       (value_sum (filter (\<lambda>p. p_status p = s) (proposals_in_scope db contact_id)))"
proof -
  have "filter (\<lambda>p. p_status p = s) rows = []" if "s \<notin> p_status ` set rows"
    for rows :: "Proposal list"
    using that by (auto simp: filter_empty_conv)
  then have "float_of_decimal (value_sum (filter (\<lambda>p. p_status p = s) rows)) = Double 0 0"
    if "s \<notin> p_status ` set rows" for rows :: "Proposal list"
    using that by (simp add: value_sum_def float_of_decimal_0 List.map_filter_def)
  then show ?thesis
    by (auto simp: get_total_value_by_status_eq [OF assms(1)] dict_get_map
        set_scan [OF assms(2)] group_keys_def)
qed

lemma counts_sum:
  assumes "contact_id \<noteq> Some 0" and "permutation scan"
  shows "sum_list (map snd (count_proposals_by_status db scan contact_id))
   = length (proposals_in_scope db contact_id)"
  by (simp add: count_proposals_by_status_eq [OF assms(1)] comp_def
      sum_list_scan [OF assms(2)] group_keys_def length_group)

lemma totals_values:
  assumes "contact_id \<noteq> Some 0"
  shows "map snd (get_total_value_by_status db scan contact_id)
   = map (\<lambda>k. float_of_decimal
                 (value_sum (filter (\<lambda>p. p_status p = k) (proposals_in_scope db contact_id))))
       (scan (group_keys p_status (proposals_in_scope db contact_id)))"
  by (simp add: get_total_value_by_status_eq [OF assms] comp_def)

lemma ProposalStatus_members_all:
  "distinct ProposalStatus_members" "s \<in> set ProposalStatus_members"
  by (simp_all add: ProposalStatus_members_def) (cases s; simp)

lemma by_status_lookup:
  "map_of (map (\<lambda>status. (ProposalStatus_value status, f status)) ProposalStatus_members)
     (ProposalStatus_value s) = Some (f s)"
  by (cases s) (simp_all add: ProposalStatus_members_def)

text \<open>The sum of one float is that float, and the sum of none is zero.\<close>

lemma py_sum_one: "py_sum py [x] = x"
  by (cases py) simp_all

lemma one_status_totals:
  assumes "permutation scan" and "p_status ` set rows \<subseteq> {s}"
  shows "py_sum py (map (\<lambda>k. float_of_decimal (value_sum (filter (\<lambda>p. p_status p = k) rows)))
                     (scan (group_keys p_status rows)))
         = float_of_decimal (value_sum rows)"
proof (cases "rows = []")
  case True
  have "mset (scan []) = mset ([] :: ProposalStatus list)"
    using assms(1) unfolding permutation_def by blast
  then have "scan [] = []" by simp
  with True show ?thesis
    by (simp add: group_keys_def value_sum_def float_of_decimal_0 List.map_filter_def)
next
  case False
  then have "p_status ` set rows = {s}"
    using assms(2) by (cases rows) auto
  then have members: "set (group_keys p_status rows) = {s}"
    by (simp add: group_keys_def)
  have once: "distinct (group_keys p_status rows)"
    by (simp add: group_keys_def)
  have keys: "group_keys p_status rows = [s]"
  proof (cases "group_keys p_status rows")
    case Nil
    with members show ?thesis by simp
  next
    case (Cons k ks)
    with members have "k = s" and "set ks \<subseteq> {s}" by auto
    moreover from Cons once have "k \<notin> set ks" by simp
    ultimately have "ks = []" by (cases ks) auto
    with Cons \<open>k = s\<close> show ?thesis by simp
  qed
  have "mset (scan [s]) = mset [s]"
    using assms(1) unfolding permutation_def by blast
  then have scan: "scan [s] = [s]" by simp
  have "filter (\<lambda>p. p_status p = s) rows = rows"
    using assms(2) by (auto simp: filter_id_conv)
  then show ?thesis
    by (simp add: keys scan py_sum_one)
qed

text \<open>
  C8, as amended. Take any proposals, a scope that names no contact or an existing
  contact whose identifier is not 0, and any order of the result rows of the two
  grouped queries. The proposal statistics are a report with one entry for each of the
  six statuses, in their declared order. The entry of a status holds the number of
  proposals of that status in the scope, and the float nearest to the sum of their
  values (a null value adds nothing); hence 0 and 0.0 for a status without proposals.
  \<open>total_count\<close> is the number of proposals in the scope and the sum of the counts of
  the six entries. \<open>total_value\<close> is the sum that Python makes of the floats of the
  statuses that occur, in the order of the result rows: it is the float nearest to the
  sum of the values of all proposals in the scope when these have one status only, and
  it need not be otherwise. A scope that names the identifier 0 is read as no scope.
\<close>

theorem proposal_stats_cover_all_statuses:
  assumes "scope_exists db contact_id" and "contact_id \<noteq> Some 0"
    and "permutation scan_counts" and "permutation scan_totals"
  shows
    "(\<exists>stats. get_proposal_stats py db scan_counts scan_totals contact_id = Inr stats
       \<and> map fst (by_status stats)
           = [''draft'', ''submitted'', ''won'', ''lost'', ''ignored'', ''expired'']
       \<and> (\<forall>status. map_of (by_status stats) (ProposalStatus_value status)
             = Some \<lparr>stat_count =
                       length (filter (\<lambda>p. p_status p = status)
                                 (proposals_in_scope db contact_id)),
                     stat_total_value =
                       float_of_decimal
                         (value_sum (filter (\<lambda>p. p_status p = status)
                                       (proposals_in_scope db contact_id)))\<rparr>)
       \<and> (\<forall>status. status \<notin> p_status ` set (proposals_in_scope db contact_id)
             \<longrightarrow> map_of (by_status stats) (ProposalStatus_value status)
                 = Some \<lparr>stat_count = 0, stat_total_value = Double 0 0\<rparr>)
       \<and> total_count stats = length (proposals_in_scope db contact_id)
       \<and> total_count stats = sum_list (map (\<lambda>(key, entry). stat_count entry) (by_status stats))
       \<and> total_value stats
           = py_sum py
               (map (\<lambda>status. float_of_decimal
                                (value_sum (filter (\<lambda>p. p_status p = status)
                                              (proposals_in_scope db contact_id))))
                  (scan_totals (group_keys p_status (proposals_in_scope db contact_id))))
       \<and> (\<forall>status. p_status ` set (proposals_in_scope db contact_id) \<subseteq> {status}
             \<longrightarrow> total_value stats
                 = float_of_decimal (value_sum (proposals_in_scope db contact_id))))
     \<and> get_proposal_stats py db scan_counts scan_totals (Some 0)
       = get_proposal_stats py db scan_counts scan_totals None"
proof -
  let ?rows = "proposals_in_scope db contact_id"
  let ?count = "\<lambda>status. length (filter (\<lambda>p. p_status p = status) ?rows)"
  let ?worth = "\<lambda>status. float_of_decimal (value_sum (filter (\<lambda>p. p_status p = status) ?rows))"
  let ?sum = "py_sum py (map ?worth (scan_totals (group_keys p_status ?rows)))"
  let ?stats = "\<lparr>total_count = length ?rows, total_value = ?sum,
      by_status = map (\<lambda>status. (ProposalStatus_value status,
                                  \<lparr>stat_count = ?count status, stat_total_value = ?worth status\<rparr>))
                    ProposalStatus_members\<rparr>"
  from assms(1) have "\<not> (case contact_id of None \<Rightarrow> False
                        | Some v \<Rightarrow> v \<noteq> 0 \<and> get_contact db v = None)"
    by (auto simp: scope_exists_def split: option.splits)
  then have result: "get_proposal_stats py db scan_counts scan_totals contact_id = Inr ?stats"
    by (simp add: get_proposal_stats_def Let_def counts_get [OF assms(2,3)]
        totals_get [OF assms(2,4)] counts_sum [OF assms(2,3)] totals_values [OF assms(2)])
  have keys: "map fst (by_status ?stats)
      = [''draft'', ''submitted'', ''won'', ''lost'', ''ignored'', ''expired'']"
    by (simp add: ProposalStatus_members_def)
  have entry: "map_of (by_status ?stats) (ProposalStatus_value status)
      = Some \<lparr>stat_count = ?count status, stat_total_value = ?worth status\<rparr>" for status
    by (simp add: by_status_lookup)
  have absent: "?count status = 0 \<and> ?worth status = Double 0 0"
    if "status \<notin> p_status ` set ?rows" for status
  proof -
    from that have "filter (\<lambda>p. p_status p = status) ?rows = []"
      by (auto simp: filter_empty_conv)
    then show ?thesis by (simp add: value_sum_def float_of_decimal_0 List.map_filter_def)
  qed
  have all: "p_status ` set ?rows \<subseteq> set ProposalStatus_members"
    using ProposalStatus_members_all(2) by blast
  have count_sum: "sum_list (map (\<lambda>(key, entry). stat_count entry) (by_status ?stats))
      = length ?rows"
    using length_group [OF ProposalStatus_members_all(1) all] by (simp add: comp_def)
  have report: "\<exists>stats. get_proposal_stats py db scan_counts scan_totals contact_id = Inr stats
       \<and> map fst (by_status stats)
           = [''draft'', ''submitted'', ''won'', ''lost'', ''ignored'', ''expired'']
       \<and> (\<forall>status. map_of (by_status stats) (ProposalStatus_value status)
             = Some \<lparr>stat_count = ?count status, stat_total_value = ?worth status\<rparr>)
       \<and> (\<forall>status. status \<notin> p_status ` set ?rows
             \<longrightarrow> map_of (by_status stats) (ProposalStatus_value status)
                 = Some \<lparr>stat_count = 0, stat_total_value = Double 0 0\<rparr>)
       \<and> total_count stats = length ?rows
       \<and> total_count stats = sum_list (map (\<lambda>(key, entry). stat_count entry) (by_status stats))
       \<and> total_value stats = ?sum
       \<and> (\<forall>status. p_status ` set ?rows \<subseteq> {status}
             \<longrightarrow> total_value stats = float_of_decimal (value_sum ?rows))"
  proof (intro exI [of _ ?stats] conjI allI impI)
    show "get_proposal_stats py db scan_counts scan_totals contact_id = Inr ?stats"
      by (rule result)
    show "map fst (by_status ?stats)
      = [''draft'', ''submitted'', ''won'', ''lost'', ''ignored'', ''expired'']"
      by (rule keys)
    show "map_of (by_status ?stats) (ProposalStatus_value status)
      = Some \<lparr>stat_count = ?count status, stat_total_value = ?worth status\<rparr>" for status
      by (rule entry)
    show "map_of (by_status ?stats) (ProposalStatus_value status)
      = Some \<lparr>stat_count = 0, stat_total_value = Double 0 0\<rparr>"
      if "status \<notin> p_status ` set ?rows" for status
      using entry [of status] absent [OF that] by simp
    show "total_count ?stats = length ?rows" by simp
    show "total_count ?stats
      = sum_list (map (\<lambda>(key, entry). stat_count entry) (by_status ?stats))"
      using count_sum by simp
    show "total_value ?stats = ?sum" by simp
    show "total_value ?stats = float_of_decimal (value_sum ?rows)"
      if "p_status ` set ?rows \<subseteq> {status}" for status
      using one_status_totals [OF assms(4) that] by simp
  qed
  have "get_proposal_stats py db scan_counts scan_totals (Some 0)
        = get_proposal_stats py db scan_counts scan_totals None"
    by (simp add: get_proposal_stats_def count_proposals_by_status_def
        get_total_value_by_status_def filter_by_id_def)
  with report show ?thesis by (rule conjI)
qed

lemmas float_eval =
  float_of_decimal_def round_ratio_def round_positive_def round_half_even_def bits.simps
  float_sub_def Let_def

lemma example_scope_2: "scope_exists example_db (Some 2)"
  by (simp add: scope_exists_def get_contact_def example_db_def contact_A_def contact_B_def)

lemma example_proposals_in_scope_2:
  "proposals_in_scope example_db (Some 2) = [proposal_2, proposal_3, proposal_4]"
  by (simp add: proposals_in_scope_def example_db_def proposal_1_def proposal_2_def
      proposal_3_def proposal_4_def)

lemma example_floats:
  "float_of_decimal 1200000 = Double 6597069766656000 (- 39)"
  "float_of_decimal 1500000 = Double 8246337208320000 (- 39)"
  "float_of_decimal 2700000 = Double 7421703487488000 (- 38)"
  by (simp_all add: float_eval)

lemma example_float_sum:
  "py_sum CPython_3_12 [Double 6597069766656000 (- 39), Double 8246337208320000 (- 39)]
   = Double 7421703487488000 (- 38)"
  by (simp add: float_eval)

theorem proposal_stats_cover_all_statuses_witness:
  "scope_exists example_db (Some 2)
   \<and> map p_status (proposals_in_scope example_db (Some 2))
       = [ProposalStatus_draft, ProposalStatus_draft, ProposalStatus_won]
   \<and> map p_value (proposals_in_scope example_db (Some 2))
       = [Some 500000, Some 700000, Some 1500000]
   \<and> (\<exists>stats. get_proposal_stats CPython_3_12 example_db id id (Some 2) = Inr stats
          \<and> map_of (by_status stats) ''draft''
              = Some \<lparr>stat_count = 2, stat_total_value = float_of_decimal 1200000\<rparr>
          \<and> map_of (by_status stats) ''won''
              = Some \<lparr>stat_count = 1, stat_total_value = float_of_decimal 1500000\<rparr>
          \<and> map_of (by_status stats) ''lost''
              = Some \<lparr>stat_count = 0, stat_total_value = Double 0 0\<rparr>
          \<and> total_count stats = 3
          \<and> total_value stats = float_of_decimal 2700000)"
proof -
  have scope: "Some (2::int) \<noteq> Some 0" by simp
  have worth: "value_sum (filter (\<lambda>p. p_status p = ProposalStatus_draft)
                            [proposal_2, proposal_3, proposal_4]) = 1200000"
    "value_sum (filter (\<lambda>p. p_status p = ProposalStatus_won)
                  [proposal_2, proposal_3, proposal_4]) = 1500000"
    "value_sum (filter (\<lambda>p. p_status p = ProposalStatus_lost)
                  [proposal_2, proposal_3, proposal_4]) = 0"
    by (simp_all add: value_sum_def List.map_filter_def proposal_2_def proposal_3_def
        proposal_4_def)
  have counts: "length (filter (\<lambda>p. p_status p = ProposalStatus_draft)
                          [proposal_2, proposal_3, proposal_4]) = 2"
    "length (filter (\<lambda>p. p_status p = ProposalStatus_won)
               [proposal_2, proposal_3, proposal_4]) = 1"
    "length (filter (\<lambda>p. p_status p = ProposalStatus_lost)
               [proposal_2, proposal_3, proposal_4]) = 0"
    by (simp_all add: proposal_2_def proposal_3_def proposal_4_def)
  have groups: "group_keys p_status [proposal_2, proposal_3, proposal_4]
      = [ProposalStatus_draft, ProposalStatus_won]"
    by (simp add: group_keys_def proposal_2_def proposal_3_def proposal_4_def)
  from proposal_stats_cover_all_statuses [OF example_scope_2 scope permutation_id_rev(1)
      permutation_id_rev(1), of CPython_3_12, THEN conjunct1,
      unfolded example_proposals_in_scope_2]
  obtain stats where stats: "get_proposal_stats CPython_3_12 example_db id id (Some 2) = Inr stats"
    and entry: "\<And>status. map_of (by_status stats) (ProposalStatus_value status)
        = Some \<lparr>stat_count = length (filter (\<lambda>p. p_status p = status)
                                        [proposal_2, proposal_3, proposal_4]),
                stat_total_value =
                  float_of_decimal (value_sum (filter (\<lambda>p. p_status p = status)
                                                 [proposal_2, proposal_3, proposal_4]))\<rparr>"
    and total: "total_count stats = length [proposal_2, proposal_3, proposal_4]"
    and worth_sum: "total_value stats
        = py_sum CPython_3_12
            (map (\<lambda>status. float_of_decimal
                             (value_sum (filter (\<lambda>p. p_status p = status)
                                           [proposal_2, proposal_3, proposal_4])))
               (id (group_keys p_status [proposal_2, proposal_3, proposal_4])))"
    by blast
  have "map_of (by_status stats) ''draft''
          = Some \<lparr>stat_count = 2, stat_total_value = float_of_decimal 1200000\<rparr>"
    using entry [of ProposalStatus_draft] by (simp only: worth counts ProposalStatus_value.simps)
  moreover have "map_of (by_status stats) ''won''
          = Some \<lparr>stat_count = 1, stat_total_value = float_of_decimal 1500000\<rparr>"
    using entry [of ProposalStatus_won] by (simp only: worth counts ProposalStatus_value.simps)
  moreover have "map_of (by_status stats) ''lost''
          = Some \<lparr>stat_count = 0, stat_total_value = Double 0 0\<rparr>"
    using entry [of ProposalStatus_lost]
    by (simp only: worth counts float_of_decimal_0 ProposalStatus_value.simps)
  moreover have "total_value stats = float_of_decimal 2700000"
    using worth_sum
    by (simp only: groups id_apply list.map worth example_floats example_float_sum)
  moreover have "total_count stats = 3"
    using total by simp
  ultimately show ?thesis
    using stats
    by (simp add: example_scope_2 example_proposals_in_scope_2)
      (simp add: proposal_2_def proposal_3_def proposal_4_def)
qed

text \<open>
  C8 as it was stated does not hold: \<open>total_value\<close> is a sum of floats, not the sum of
  the values. A contact has a draft proposal of 0.10 and a won proposal of 0.20, whose
  values sum to 0.30. The float nearest to 0.30 is \<open>5404319552844595 * 2 ^ - 54\<close>; the
  report (under both ways in which Python sums floats) has the \<open>total_value\<close>
  \<open>5404319552844596 * 2 ^ - 54\<close>, which Python prints as 0.30000000000000004.
\<close>

lemma dime_floats:
  "float_of_decimal 10 = Double 7205759403792794 (- 56)"
  "float_of_decimal 20 = Double 7205759403792794 (- 55)"
  "float_of_decimal 30 = Double 5404319552844595 (- 54)"
  by (simp_all add: float_eval)

lemma dime_float_sums:
  "py_sum CPython_3_11 [Double 7205759403792794 (- 56), Double 7205759403792794 (- 55)]
   = Double 5404319552844596 (- 54)"
  "py_sum CPython_3_12 [Double 7205759403792794 (- 56), Double 7205759403792794 (- 55)]
   = Double 5404319552844596 (- 54)"
  by (simp_all add: float_eval)

lemma dime_totals:
  "get_total_value_by_status tied_db id (Some 1)
   = [(ProposalStatus_draft, Double 7205759403792794 (- 56)),
      (ProposalStatus_won, Double 7205759403792794 (- 55))]"
  by (simp add: get_total_value_by_status_def filter_by_id_def group_keys_def sql_sum_def
      List.map_filter_def tied_db_def proposal_5_def proposal_6_def dime_floats)

lemma dime_counts:
  "count_proposals_by_status tied_db id (Some 1)
   = [(ProposalStatus_draft, 1), (ProposalStatus_won, 1)]"
  by (simp add: count_proposals_by_status_def filter_by_id_def group_keys_def
      tied_db_def proposal_5_def proposal_6_def)

lemma dime_contact: "get_contact tied_db 1 = Some contact_A"
  by (simp add: get_contact_def tied_db_def contact_A_def)

theorem float_total_counterexample:
  "get_contact tied_db 1 = Some contact_A
   \<and> map p_status (proposals_in_scope tied_db (Some 1))
       = [ProposalStatus_draft, ProposalStatus_won]
   \<and> map p_value (proposals_in_scope tied_db (Some 1)) = [Some 10, Some 20]
   \<and> value_sum (proposals_in_scope tied_db (Some 1)) = 30
   \<and> float_of_decimal 30 = Double 5404319552844595 (- 54)
   \<and> get_proposal_stats CPython_3_11 tied_db id id (Some 1)
       = Inr \<lparr>total_count = 2, total_value = Double 5404319552844596 (- 54),
              by_status =
                [(''draft'', \<lparr>stat_count = 1, stat_total_value = float_of_decimal 10\<rparr>),
                 (''submitted'', \<lparr>stat_count = 0, stat_total_value = Double 0 0\<rparr>),
                 (''won'', \<lparr>stat_count = 1, stat_total_value = float_of_decimal 20\<rparr>),
                 (''lost'', \<lparr>stat_count = 0, stat_total_value = Double 0 0\<rparr>),
                 (''ignored'', \<lparr>stat_count = 0, stat_total_value = Double 0 0\<rparr>),
                 (''expired'', \<lparr>stat_count = 0, stat_total_value = Double 0 0\<rparr>)]\<rparr>
   \<and> get_proposal_stats CPython_3_12 tied_db id id (Some 1)
       = Inr \<lparr>total_count = 2, total_value = Double 5404319552844596 (- 54),
              by_status =
                [(''draft'', \<lparr>stat_count = 1, stat_total_value = float_of_decimal 10\<rparr>),
                 (''submitted'', \<lparr>stat_count = 0, stat_total_value = Double 0 0\<rparr>),
                 (''won'', \<lparr>stat_count = 1, stat_total_value = float_of_decimal 20\<rparr>),
                 (''lost'', \<lparr>stat_count = 0, stat_total_value = Double 0 0\<rparr>),
                 (''ignored'', \<lparr>stat_count = 0, stat_total_value = Double 0 0\<rparr>),
                 (''expired'', \<lparr>stat_count = 0, stat_total_value = Double 0 0\<rparr>)]\<rparr>"
proof -
  have rows: "proposals_in_scope tied_db (Some 1) = [proposal_5, proposal_6]"
    by (simp add: proposals_in_scope_def tied_db_def proposal_5_def proposal_6_def)
  have fields: "map p_status [proposal_5, proposal_6] = [ProposalStatus_draft, ProposalStatus_won]"
    "map p_value [proposal_5, proposal_6] = [Some 10, Some 20]"
    "value_sum [proposal_5, proposal_6] = 30"
    by (simp_all add: value_sum_def List.map_filter_def proposal_5_def proposal_6_def)
  have stats: "get_proposal_stats py tied_db id id (Some 1)
       = Inr \<lparr>total_count = 2, total_value = Double 5404319552844596 (- 54),
              by_status =
                [(''draft'', \<lparr>stat_count = 1, stat_total_value = float_of_decimal 10\<rparr>),
                 (''submitted'', \<lparr>stat_count = 0, stat_total_value = Double 0 0\<rparr>),
                 (''won'', \<lparr>stat_count = 1, stat_total_value = float_of_decimal 20\<rparr>),
                 (''lost'', \<lparr>stat_count = 0, stat_total_value = Double 0 0\<rparr>),
                 (''ignored'', \<lparr>stat_count = 0, stat_total_value = Double 0 0\<rparr>),
                 (''expired'', \<lparr>stat_count = 0, stat_total_value = Double 0 0\<rparr>)]\<rparr>" for py
    by (cases py)
      (simp_all add: get_proposal_stats_def Let_def dime_contact dime_totals dime_counts
        dime_float_sums dime_floats dict_get_def ProposalStatus_members_def
        del: py_sum.simps)
  show ?thesis
    by (simp only: rows fields dime_contact dime_floats(3) stats simp_thms)
qed

end
